theory Spec2Isabelle
  imports
    Complex_Main
    "HOL-Library.Finite_Map"
    "HOL-Library.Sublist"
    "HOL-Library.Char_ord"
    "HOL-Library.List_Lexorder"
begin

section \<open>Strings\<close>

text \<open>
  Go strings are byte sequences; they are modelled as \<open>string\<close> (a list of \<open>char\<close>).
  \<open>splitOn sep s\<close> is \<^verbatim>\<open>strings.Split(s, sep)\<close> for a one-byte separator: the result
  always has at least one element, and the empty string splits into one empty part.
  \<open>joinWith sep parts\<close> is \<^verbatim>\<open>strings.Join(parts, sep)\<close>.
\<close>

fun splitOn :: "char \<Rightarrow> string \<Rightarrow> string list" where
  "splitOn sep [] = [ [] ]"
| "splitOn sep (c # cs) =
     (if c = sep then [] # splitOn sep cs
      else (case splitOn sep cs of
              [] \<Rightarrow> [ [c] ]
            | p # ps \<Rightarrow> (c # p) # ps))"

fun joinWith :: "string \<Rightarrow> string list \<Rightarrow> string" where
  "joinWith sep [] = []"
| "joinWith sep [p] = p"
| "joinWith sep (p # q # ps) = p @ sep @ joinWith sep (q # ps)"

text \<open>
  \<^verbatim>\<open>strings.TrimSpace\<close>: leading and trailing white space removed. The white space of
  the outputs read here is ASCII (blank, tab, line feed, vertical tab, form feed, return).
\<close>

definition isSpace :: "char \<Rightarrow> bool" where
  "isSpace c \<longleftrightarrow> c \<in> set [CHR '' '', CHR 0x09, CHR 0x0A, CHR 0x0B, CHR 0x0C, CHR 0x0D]"

definition TrimSpace :: "string \<Rightarrow> string" where
  "TrimSpace s = rev (dropWhile isSpace (rev (dropWhile isSpace s)))"

section \<open>The artifact document\<close>

text \<open>
  The file \<^verbatim>\<open><repoName>.jsonnet\<close> is decoded by \<^verbatim>\<open>encoding/json\<close> into a
  \<^verbatim>\<open>map[string]interface{}\<close>. A decoded value is \<^verbatim>\<open>nil\<close>, a \<^verbatim>\<open>bool\<close>, a
  \<^verbatim>\<open>float64\<close> (kept as the rational it denotes), a \<^verbatim>\<open>string\<close>, a slice or again a
  map with string keys. A Go map holds one value per key, hence a finite map.
\<close>

datatype json =
    JNull
  | JBool bool
  | JNum rat
  | JStr string
  | JArr "json list"
  | JObj "(string, json) fmap"

type_synonym document = "(string, json) fmap"

text \<open>
  The type assertion \<^verbatim>\<open>v.(map[string]interface{})\<close> on the result of a map read: it
  succeeds only on a present key that holds a map.
\<close>

definition asMap :: "json option \<Rightarrow> document option" where
  "asMap v = (case v of Some (JObj m) \<Rightarrow> Some m | _ \<Rightarrow> None)"

text \<open>
  \<^verbatim>\<open>git.go\<close> lines 625 to 627: the key under which a version is filed.
  \<^verbatim>\<open>parts[:len(parts)-1]\<close> never panics, \<open>parts\<close> having at least one element.
\<close>

definition versionPrefix :: "string \<Rightarrow> string" where
  "versionPrefix version =
     (let parts = splitOn CHR ''-'' version
      in joinWith ''-'' (take (length parts - 1) parts))"

text \<open>
  The version family in the words of the specification: the version string with its last
  dash-delimited segment stripped, that is, what stands before the last dash (nothing
  when there is no dash).
\<close>

definition stripLastSegment :: "string \<Rightarrow> string" where
  "stripLastSegment version =
     rev (drop 1 (dropWhile (\<lambda>c. c \<noteq> CHR ''-'') (rev version)))"

text \<open>
  Lines 639 to 658 of \<^verbatim>\<open>UpdateArtifactsRepo\<close>, on a non-nil decoded map. The maps
  \<open>repoContent\<close> and \<open>pkgContent\<close> are references into \<open>existingContent\<close>, which was
  freshly decoded (a tree without sharing), so the final assignment shows through
  \<open>existingContent\<close>: the model rebuilds the path. The result is \<open>None\<close> on the early
  return "already exists and is up to date", else the content that is marshalled.
\<close>

definition repoContentOf :: "document \<Rightarrow> string \<Rightarrow> document" where
  "repoContentOf existingContent repoName =
     (case asMap (fmlookup existingContent repoName) of
        Some m \<Rightarrow> m
      | None \<Rightarrow> fmempty)"

definition pkgContentOf :: "document \<Rightarrow> string \<Rightarrow> string \<Rightarrow> document" where
  "pkgContentOf existingContent repoName pkgName =
     (case asMap (fmlookup (repoContentOf existingContent repoName) pkgName) of
        Some m \<Rightarrow> m
      | None \<Rightarrow> fmempty)"

definition updateContent :: "document \<Rightarrow> string \<Rightarrow> string \<Rightarrow> string \<Rightarrow> document option" where
  "updateContent existingContent repoName pkgName version =
     (let repoContent = repoContentOf existingContent repoName;
          pkgContent = pkgContentOf existingContent repoName pkgName
      in if fmlookup pkgContent (versionPrefix version) = Some (JStr version) then None
         else Some (fmupd repoName
                      (JObj (fmupd pkgName
                         (JObj (fmupd (versionPrefix version) (JStr version) pkgContent))
                         repoContent))
                      existingContent))"

text \<open>
  What a document stores for a (repository, package, family) triple, and the members of
  the package object for one family as \<^verbatim>\<open>json.MarshalIndent\<close> writes them (it emits the
  keys of a map in sorted order, each once).
\<close>

definition storedVersion :: "document \<Rightarrow> string \<Rightarrow> string \<Rightarrow> string \<Rightarrow> json option" where
  "storedVersion doc repoName pkgName family =
     fmlookup (pkgContentOf doc repoName pkgName) family"

definition familyMembers :: "document \<Rightarrow> string \<Rightarrow> string \<Rightarrow> string \<Rightarrow> (string \<times> json) list" where
  "familyMembers doc repoName pkgName family =
     filter (\<lambda>kv. fst kv = family) (sorted_list_of_fmap (pkgContentOf doc repoName pkgName))"

text \<open>
  The document after a run of publications, each reading what the one before left:
  a publication that finds its version already stored leaves the document as it is.
\<close>

definition publishOne :: "document \<Rightarrow> string \<times> string \<times> string \<Rightarrow> document" where
  "publishOne doc call =
     (case call of (repoName, pkgName, version) \<Rightarrow>
        (case updateContent doc repoName pkgName version of
           None \<Rightarrow> doc
         | Some doc' \<Rightarrow> doc'))"

definition publishAll :: "document \<Rightarrow> (string \<times> string \<times> string) list \<Rightarrow> document" where
  "publishAll doc calls = foldl publishOne doc calls"

text \<open>
  The version of the last publication in a run that was for the given repository and
  package and fell into the given family, if there was one.
\<close>

definition lastVersion ::
  "(string \<times> string \<times> string) list \<Rightarrow> string \<Rightarrow> string \<Rightarrow> string \<Rightarrow> string option" where
  "lastVersion calls repoName pkgName family =
     (case filter (\<lambda>call. fst call = repoName \<and> fst (snd call) = pkgName
                          \<and> versionPrefix (snd (snd call)) = family) (rev calls) of
        [] \<Rightarrow> None
      | call # earlier \<Rightarrow> Some (snd (snd call)))"

section \<open>Configuration\<close>

text \<open>
  The structs of \<^verbatim>\<open>configs/config.go\<close>. \<^verbatim>\<open>RepositoryInterface\<close> is implemented by
  \<^verbatim>\<open>*Repository\<close> and \<^verbatim>\<open>*ArtifactsRepo\<close>, whose getters return the fields; the second
  record extends the first, so a function on \<open>'a Repository_scheme\<close> takes both.
  \<^verbatim>\<open>GitConfig.ArtifactsRepo\<close> is a pointer that the code tests against \<^verbatim>\<open>nil\<close>.
\<close>

record AuthConfig =
  Type :: string
  Username :: string
  Password :: string
  SSHPrivateKey :: string
  SSHKeyPath :: string

record CommitConfig =
  UserName :: string
  UserEmail :: string
  Message :: string

record Repository =
  URL :: string
  Branch :: string
  Directory :: string
  Auth :: AuthConfig
  CommitConfig :: CommitConfig

record ArtifactsRepo = Repository +
  UseMainAuth :: bool
  UseMainCommit :: bool
  AutoBranchName :: string

record GitConfig =
  WorkingDir :: string
  UseSubmodules :: bool
  Branches :: "string list"
  AutoCommit :: bool
  CommitConfig :: CommitConfig
  MainRepo :: Repository
  ArtifactsRepo :: "ArtifactsRepo option"

record WebhookConfig =
  CallbackURL :: string
  Secret :: string
  Method :: string

section \<open>The host: file system, the git program, the Go library\<close>

text \<open>
  Every effect of the program goes through the operating system or the external
  \<^verbatim>\<open>git\<close> program. They are a parameter of the model: a record of operations on a
  world \<open>'w\<close>. A command returns whether it exited with success, its standard output
  (\<^verbatim>\<open>cmd.Output\<close>) and its combined output (\<^verbatim>\<open>cmd.CombinedOutput\<close>).
  The environment overlay that \<^verbatim>\<open>setupCredentials\<close> puts on a command is passed along
  as a value; writing an inline key to a temporary file is left to the host.
  The functions of \<^verbatim>\<open>encoding/json\<close>, \<^verbatim>\<open>crypto/hmac\<close>, \<^verbatim>\<open>path/filepath\<close> and the
  clock are fields of the same record. \<open>pathExists\<close> is the test that \<^verbatim>\<open>os.Stat\<close> does
  not report \<^verbatim>\<open>os.IsNotExist\<close>; \<open>readFile\<close> is \<^verbatim>\<open>os.ReadFile\<close> (\<open>None\<close> on an error)
  and \<open>writeFile\<close> is \<^verbatim>\<open>os.WriteFile\<close> with its success.
\<close>

record cmd_result =
  ok :: bool
  stdout :: string
  combined :: string

datatype credentials =
    NoCredentials
  | BasicCredentials string string
  | SSHKeyFile string
  | SSHInlineKey string

text \<open>
  The result of \<^verbatim>\<open>json.Unmarshal(data, &existingContent)\<close> on a nil
  \<^verbatim>\<open>map[string]interface{}\<close>: an error (malformed text, or a top-level value that is
  neither an object nor \<^verbatim>\<open>null\<close>), the map left nil (top-level \<^verbatim>\<open>null\<close>), or a map.
\<close>

datatype unmarshalled = UnmarshalError | NilMap | GoMap document

record RepoUpdate =
  Repository :: string
  Branch :: string
  Timestamp :: string
  CommitHash :: string

record WebhookPayload =
  Event :: string
  Timestamp :: string
  Branch :: string
  RepoUpdates :: "(string, RepoUpdate) fmap"
  Message :: string

record WebhookTriggerRequest =
  Event :: string
  Branch :: string
  Reference :: string

record http_request =
  requestMethod :: string
  url :: string
  contentType :: string
  signature :: "string option"
  payloadBytes :: string

record 'w host =
  pathJoin :: "string \<Rightarrow> string \<Rightarrow> string"
  pathExists :: "string \<Rightarrow> 'w \<Rightarrow> bool"
  readFile :: "string \<Rightarrow> 'w \<Rightarrow> string option"
  writeFile :: "string \<Rightarrow> string \<Rightarrow> 'w \<Rightarrow> bool \<times> 'w"
  exec :: "string \<Rightarrow> string list \<Rightarrow> credentials \<Rightarrow> 'w \<Rightarrow> cmd_result \<times> 'w"
  now :: "'w \<Rightarrow> string"
  jsonUnmarshal :: "string \<Rightarrow> unmarshalled"
  jsonMarshalIndent :: "document \<Rightarrow> string"
  jsonMarshalPayload :: "WebhookPayload \<Rightarrow> string"
  jsonUnmarshalTrigger :: "string \<Rightarrow> WebhookTriggerRequest option"
  jsonDecodeTrigger :: "string \<Rightarrow> WebhookTriggerRequest option"
  hmacSHA256 :: "string \<Rightarrow> string \<Rightarrow> string"
  validRequest :: "string \<Rightarrow> string \<Rightarrow> bool"
  httpDo :: "http_request \<Rightarrow> 'w \<Rightarrow> (nat \<times> string) option \<times> 'w"

text \<open>
  What a run did to the outside: the commands it ran (directory, arguments, credential
  overlay), the files it wrote and the requests it sent, in order.
\<close>

datatype action =
    Git string "string list" credentials
  | WriteFile string string
  | HttpSend http_request

type_synonym 'w st = "'w \<times> action list"

datatype error =
    Failed string string
  | Wrapped string error
  | Errorf string
  | OSError string
  | Panic string

definition git :: "'w host \<Rightarrow> string \<Rightarrow> string list \<Rightarrow> credentials \<Rightarrow> 'w st \<Rightarrow> cmd_result \<times> 'w st" where
  "git h dir args cred s =
     (case exec h dir args cred (fst s) of
        (r, w') \<Rightarrow> (r, (w', snd s @ [Git dir args cred])))"

definition osWriteFile :: "'w host \<Rightarrow> string \<Rightarrow> string \<Rightarrow> 'w st \<Rightarrow> bool \<times> 'w st" where
  "osWriteFile h path data s =
     (case writeFile h path data (fst s) of
        (b, w') \<Rightarrow> (b, (w', snd s @ [WriteFile path data])))"

definition HasPrefix :: "string \<Rightarrow> string \<Rightarrow> bool" where
  "HasPrefix s p \<longleftrightarrow> take (length p) s = p"

text \<open>\<^verbatim>\<open>strings.SplitN(s, sep, 2)\<close> when it yields two parts: the cut at the first \<open>sep\<close>.\<close>

fun cutFirst :: "string \<Rightarrow> string \<Rightarrow> (string \<times> string) option" where
  "cutFirst sep [] = (if sep = [] then Some ([], []) else None)"
| "cutFirst sep (c # cs) =
     (if HasPrefix (c # cs) sep then Some ([], drop (length sep) (c # cs))
      else (case cutFirst sep cs of
              None \<Rightarrow> None
            | Some (a, b) \<Rightarrow> Some (c # a, b)))"

section \<open>The git manager (\<^verbatim>\<open>internal/git/git.go\<close>)\<close>

definition setupCredentials :: "'a Repository_scheme \<Rightarrow> credentials" where
  "setupCredentials repo =
     (if Type (Auth repo) = ''basic'' then
        (if Username (Auth repo) \<noteq> [] \<and> Password (Auth repo) \<noteq> []
         then BasicCredentials (Username (Auth repo)) (Password (Auth repo))
         else NoCredentials)
      else if Type (Auth repo) = ''ssh'' then
        (if SSHKeyPath (Auth repo) \<noteq> [] then SSHKeyFile (SSHKeyPath (Auth repo))
         else if SSHPrivateKey (Auth repo) \<noteq> [] then SSHInlineKey (SSHPrivateKey (Auth repo))
         else NoCredentials)
      else NoCredentials)"

text \<open>The overlay set inline by \<^verbatim>\<open>updateSubmodules\<close> and \<^verbatim>\<open>checkAndUpdateSubmodules\<close>.\<close>

definition sshKeyPathEnv :: "'a Repository_scheme \<Rightarrow> credentials" where
  "sshKeyPathEnv repo =
     (if Type (Auth repo) = ''ssh'' \<and> SSHKeyPath (Auth repo) \<noteq> []
      then SSHKeyFile (SSHKeyPath (Auth repo))
      else NoCredentials)"

definition mainRepoPath :: "'w host \<Rightarrow> GitConfig \<Rightarrow> string" where
  "mainRepoPath h cfg = pathJoin h (WorkingDir cfg) (Directory (MainRepo cfg))"

text \<open>
  \<^verbatim>\<open>listSubmodules\<close>: all matches of the pattern \<^verbatim>\<open>\[submodule "([^"]+)"\]\<close> in
  \<^verbatim>\<open>.gitmodules\<close>, leftmost first and without overlap. The class \<^verbatim>\<open>[^"]\<close> cannot run
  over a quote, so a match at a position is the opening text, the longest run without a
  quote (not empty), and the closing \<^verbatim>\<open>"]\<close>.
\<close>

definition submoduleOpen :: string where
  "submoduleOpen = ''[submodule '' @ [CHR 0x22]"

definition matchSubmoduleAt :: "string \<Rightarrow> string option" where
  "matchSubmoduleAt s =
     (if HasPrefix s submoduleOpen then
        (let t = drop (length submoduleOpen) s;
             name = takeWhile (\<lambda>c. c \<noteq> CHR 0x22) t
         in if name \<noteq> [] \<and> HasPrefix (drop (length name) t) [CHR 0x22, CHR '']'']
            then Some name else None)
      else None)"

function findSubmodules :: "string \<Rightarrow> string list" where
  "findSubmodules [] = []"
| "findSubmodules (c # cs) =
     (case matchSubmoduleAt (c # cs) of
        Some name \<Rightarrow>
          name # findSubmodules (drop (length submoduleOpen + length name + 2) (c # cs))
      | None \<Rightarrow> findSubmodules cs)"
  by pat_completeness auto
termination
  by (relation "measure length") (auto simp: submoduleOpen_def)

definition listSubmodules :: "'w host \<Rightarrow> GitConfig \<Rightarrow> 'w \<Rightarrow> error + string list" where
  "listSubmodules h cfg w =
     (case readFile h (pathJoin h (mainRepoPath h cfg) ''.gitmodules'') w of
        None \<Rightarrow> Inl (OSError ''read .gitmodules'')
      | Some content \<Rightarrow> Inr (findSubmodules content))"

text \<open>
  \<^verbatim>\<open>updateSubmodules\<close>. Its closing call of \<^verbatim>\<open>listSubmodules\<close> only feeds a log line.
\<close>

definition updateSubmodules :: "'w host \<Rightarrow> GitConfig \<Rightarrow> 'w st \<Rightarrow> (error + unit) \<times> 'w st" where
  "updateSubmodules h cfg s =
     (let repoPath = mainRepoPath h cfg in
      if \<not> pathExists h (pathJoin h repoPath ''.gitmodules'') (fst s)
      then (Inl (Errorf ''.gitmodules file not found in main repository''), s)
      else
        (case git h repoPath [''submodule'', ''init''] NoCredentials s of (r1, s1) \<Rightarrow>
         if \<not> ok r1 then (Inl (Failed ''git submodule init failed'' (combined r1)), s1)
         else
           (case git h repoPath [''submodule'', ''update'', ''--recursive'', ''--remote'']
                   (sshKeyPathEnv (MainRepo cfg)) s1 of (r2, s2) \<Rightarrow>
            if \<not> ok r2 then (Inl (Failed ''git submodule update failed'' (combined r2)), s2)
            else (Inr (), s2))))"

text \<open>
  The loop of \<^verbatim>\<open>checkAndUpdateSubmodules\<close> (lines 147 to 173), with \<open>anyUpdated\<close> as
  accumulator. Both \<^verbatim>\<open>continue\<close> statements go on with the next submodule.
\<close>

fun updateEachSubmodule ::
  "'w host \<Rightarrow> GitConfig \<Rightarrow> string list \<Rightarrow> bool \<Rightarrow> 'w st \<Rightarrow> bool \<times> 'w st" where
  "updateEachSubmodule h cfg [] anyUpdated s = (anyUpdated, s)"
| "updateEachSubmodule h cfg (submodule # rest) anyUpdated s =
     (case git h (mainRepoPath h cfg)
             [''submodule'', ''update'', ''--recursive'', ''--remote'', submodule]
             (sshKeyPathEnv (MainRepo cfg)) s of (r, s1) \<Rightarrow>
      if \<not> ok r then updateEachSubmodule h cfg rest anyUpdated s1
      else
        (case git h (pathJoin h (mainRepoPath h cfg) submodule) [''rev-parse'', ''HEAD'']
                NoCredentials s1 of (r2, s2) \<Rightarrow>
         if \<not> ok r2 then updateEachSubmodule h cfg rest anyUpdated s2
         else updateEachSubmodule h cfg rest True s2))"

definition checkAndUpdateSubmodules :: "'w host \<Rightarrow> GitConfig \<Rightarrow> 'w st \<Rightarrow> (error + bool) \<times> 'w st" where
  "checkAndUpdateSubmodules h cfg s =
     (let repoPath = mainRepoPath h cfg in
      if \<not> pathExists h (pathJoin h repoPath ''.gitmodules'') (fst s) then (Inr False, s)
      else
        (case listSubmodules h cfg (fst s) of
           Inl e \<Rightarrow> (Inl (Wrapped ''failed to list submodules'' e), s)
         | Inr submodules \<Rightarrow>
             if length submodules = 0 then (Inr False, s)
             else
               (case git h repoPath [''submodule'', ''status''] NoCredentials s of (r1, s1) \<Rightarrow>
                if \<not> ok r1 then (Inl (Failed ''failed to check submodule status'' []), s1)
                else
                  (case updateEachSubmodule h cfg submodules False s1 of (anyUpdated, s2) \<Rightarrow>
                   (case git h repoPath [''status''] NoCredentials s2 of (r3, s3) \<Rightarrow>
                    if \<not> ok r3
                    then (Inl (Failed ''failed to check main repository status'' []), s3)
                    else (Inr anyUpdated, s3))))))"

text \<open>
  \<^verbatim>\<open>cloneRepo\<close>. The command runs in the process directory. With basic authentication
  and a URL without \<^verbatim>\<open>://\<close> the argument list keeps neither URL nor path, as in the
  source. A failure of the submodule initialisation after a clone is only logged.
\<close>

definition cloneRepo ::
  "'w host \<Rightarrow> GitConfig \<Rightarrow> 'a Repository_scheme \<Rightarrow> 'w st \<Rightarrow> (error + unit) \<times> 'w st" where
  "cloneRepo h cfg repo s =
     (let repoPath = pathJoin h (WorkingDir cfg) (Directory repo);
          args = [''clone'', ''--branch'', Repository.Branch repo]
      in
      (case
         (if HasPrefix (URL repo) ''git@'' \<and> Type (Auth repo) = ''ssh''
          then git h [] (args @ [URL repo, repoPath]) (setupCredentials repo) s
          else git h []
                 (if Type (Auth repo) = ''basic'' \<and> Username (Auth repo) \<noteq> []
                       \<and> Password (Auth repo) \<noteq> []
                  then (case cutFirst ''://'' (URL repo) of
                          Some (scheme, rest) \<Rightarrow>
                            args @ [scheme @ ''://'' @ Username (Auth repo) @ '':''
                                      @ Password (Auth repo) @ ''@'' @ rest, repoPath]
                        | None \<Rightarrow> args)
                  else args @ [URL repo, repoPath])
                 NoCredentials s)
       of (r, s1) \<Rightarrow>
         if \<not> ok r then (Inl (Failed ''git clone failed'' (combined r)), s1)
         else if UseSubmodules cfg \<and> Directory repo = Directory (MainRepo cfg)
         then (case updateSubmodules h cfg s1 of (_, s2) \<Rightarrow> (Inr (), s2))
         else (Inr (), s1)))"

definition hasNewCommits ::
  "'w host \<Rightarrow> GitConfig \<Rightarrow> 'a Repository_scheme \<Rightarrow> 'w st \<Rightarrow> (error + bool) \<times> 'w st" where
  "hasNewCommits h cfg repo s =
     (let repoPath = pathJoin h (WorkingDir cfg) (Directory repo) in
      (case git h repoPath [''fetch'', ''origin'', Repository.Branch repo]
              (setupCredentials repo) s of (r1, s1) \<Rightarrow>
       if \<not> ok r1 then (Inl (Failed ''git fetch failed'' (combined r1)), s1)
       else
         (case git h repoPath
                 [''rev-list'', ''HEAD..origin/'' @ Repository.Branch repo, ''--count'']
                 NoCredentials s1 of (r2, s2) \<Rightarrow>
          if \<not> ok r2 then (Inl (Failed ''failed to check for new commits'' []), s2)
          else (Inr (TrimSpace (stdout r2) \<noteq> ''0''), s2))))"

definition pullRepo ::
  "'w host \<Rightarrow> GitConfig \<Rightarrow> 'a Repository_scheme \<Rightarrow> 'w st \<Rightarrow> (error + unit) \<times> 'w st" where
  "pullRepo h cfg repo s =
     (let repoPath = pathJoin h (WorkingDir cfg) (Directory repo) in
      (case git h repoPath [''checkout'', Repository.Branch repo] NoCredentials s of (r1, s1) \<Rightarrow>
       if \<not> ok r1 then (Inl (Failed ''git checkout failed'' (combined r1)), s1)
       else
         (case git h repoPath [''pull'', ''origin'', Repository.Branch repo]
                 (setupCredentials repo) s1 of (r2, s2) \<Rightarrow>
          if \<not> ok r2 then (Inl (Failed ''git pull failed'' (combined r2)), s2)
          else (Inr (), s2))))"

definition checkAndUpdateRepo ::
  "'w host \<Rightarrow> GitConfig \<Rightarrow> 'a Repository_scheme \<Rightarrow> 'w st \<Rightarrow> (error + bool) \<times> 'w st" where
  "checkAndUpdateRepo h cfg repo s =
     (if \<not> pathExists h (pathJoin h (WorkingDir cfg) (Directory repo)) (fst s) then
        (case cloneRepo h cfg repo s of
           (Inl e, s1) \<Rightarrow> (Inl e, s1)
         | (Inr _, s1) \<Rightarrow> (Inr True, s1))
      else
        (case hasNewCommits h cfg repo s of
           (Inl e, s1) \<Rightarrow> (Inl e, s1)
         | (Inr hasNew, s1) \<Rightarrow>
             if hasNew then
               (case pullRepo h cfg repo s1 of
                  (Inl e, s2) \<Rightarrow> (Inl e, s2)
                | (Inr _, s2) \<Rightarrow> (Inr True, s2))
             else (Inr False, s1)))"

definition GetLastCommitHash ::
  "'w host \<Rightarrow> GitConfig \<Rightarrow> 'a Repository_scheme \<Rightarrow> 'w st \<Rightarrow> (error + string) \<times> 'w st" where
  "GetLastCommitHash h cfg repo s =
     (let repoPath = pathJoin h (WorkingDir cfg) (Directory repo) in
      if \<not> pathExists h repoPath (fst s) then (Inl (Errorf ''repository does not exist''), s)
      else
        (case git h repoPath [''rev-parse'', ''HEAD''] NoCredentials s of (r, s1) \<Rightarrow>
         if \<not> ok r then (Inl (Failed ''failed to get last commit hash'' []), s1)
         else (Inr (TrimSpace (stdout r)), s1)))"

definition newline :: string where
  "newline = [CHR 0x0A]"

text \<open>
  Setting \<^verbatim>\<open>user.name\<close> and \<^verbatim>\<open>user.email\<close> on the working copy when configured
  (lines 233 to 248, and again lines 690 to 704).
\<close>

definition setGitUser ::
  "'w host \<Rightarrow> string \<Rightarrow> CommitConfig \<Rightarrow> 'w st \<Rightarrow> (error + unit) \<times> 'w st" where
  "setGitUser h repoPath cc s =
     (case (if UserName cc \<noteq> []
            then (case git h repoPath [''config'', ''user.name'', UserName cc] NoCredentials s of
                    (r, s1) \<Rightarrow>
                      if \<not> ok r then (Inl (Failed ''failed to set git user.name'' (combined r)), s1)
                      else (Inr (), s1))
            else (Inr (), s)) of
        (Inl e, s1) \<Rightarrow> (Inl e, s1)
      | (Inr _, s1) \<Rightarrow>
          if UserEmail cc \<noteq> []
          then (case git h repoPath [''config'', ''user.email'', UserEmail cc] NoCredentials s1 of
                  (r, s2) \<Rightarrow>
                    if \<not> ok r then (Inl (Failed ''failed to set git user.email'' (combined r)), s2)
                    else (Inr (), s2))
          else (Inr (), s1))"

text \<open>The loop of lines 287 to 294: one line per submodule whose head can be read.\<close>

fun submoduleDetails ::
  "'w host \<Rightarrow> string \<Rightarrow> string list \<Rightarrow> 'w st \<Rightarrow> string list \<times> 'w st" where
  "submoduleDetails h repoPath [] s = ([], s)"
| "submoduleDetails h repoPath (submodule # rest) s =
     (case git h (pathJoin h repoPath submodule) [''rev-parse'', ''HEAD''] NoCredentials s of
        (r, s1) \<Rightarrow>
          (case submoduleDetails h repoPath rest s1 of
             (details, s2) \<Rightarrow>
               ((if ok r then [submodule @ '': '' @ TrimSpace (stdout r)] else []) @ details, s2)))"

definition commitSubmoduleChangesToMainRepo ::
  "'w host \<Rightarrow> GitConfig \<Rightarrow> string \<Rightarrow> 'w st \<Rightarrow> (error + unit) \<times> 'w st" where
  "commitSubmoduleChangesToMainRepo h cfg branch s =
     (let repoPath = mainRepoPath h cfg in
      (case setGitUser h repoPath (GitConfig.CommitConfig cfg) s of
         (Inl e, s1) \<Rightarrow> (Inl e, s1)
       | (Inr _, s1) \<Rightarrow>
      (case git h repoPath [''status'', ''--porcelain''] NoCredentials s1 of (r2, s2) \<Rightarrow>
       if \<not> ok r2 then (Inl (Failed ''failed to check git status'' []), s2)
       else if length (TrimSpace (stdout r2)) = 0 then (Inr (), s2)
       else
         (case listSubmodules h cfg (fst s2) of
            Inl e \<Rightarrow> (Inl (Wrapped ''failed to list submodules'' e), s2)
          | Inr submodules \<Rightarrow>
         (case git h repoPath [''add'', ''.''] NoCredentials s2 of (r3, s3) \<Rightarrow>
          if \<not> ok r3 then (Inl (Failed ''git add failed'' (combined r3)), s3)
          else
            (let timestamp = now h (fst s3);
                 message = (if CommitConfig.Message (GitConfig.CommitConfig cfg) = []
                            then ''Update submodules [Git Watcher Auto-Commit]''
                            else CommitConfig.Message (GitConfig.CommitConfig cfg))
             in
             (case submoduleDetails h repoPath submodules s3 of (details, s4) \<Rightarrow>
              (case git h repoPath
                      [''commit'', ''-m'',
                       message @ newline @ newline @ ''Branch: '' @ branch @ newline
                         @ ''Timestamp: '' @ timestamp @ newline @ newline
                         @ ''Updated submodules:'' @ newline @ joinWith newline details]
                      NoCredentials s4 of (r5, s5) \<Rightarrow>
               if \<not> ok r5 then (Inl (Failed ''git commit failed'' (combined r5)), s5)
               else if Type (Auth (MainRepo cfg)) \<noteq> ''none'' then
                 (case git h repoPath [''push'', ''origin'', branch]
                         (setupCredentials (MainRepo cfg)) s5 of (r6, s6) \<Rightarrow>
                  if \<not> ok r6 then (Inl (Failed ''git push failed'' (combined r6)), s6)
                  else (Inr (), s6))
               else (Inr (), s5)))))))))"

definition CheckAndUpdateRepoBranch ::
  "'w host \<Rightarrow> GitConfig \<Rightarrow> string \<Rightarrow> 'w st \<Rightarrow> (error + unit) \<times> 'w st" where
  "CheckAndUpdateRepoBranch h cfg branch s =
     (let repoCopy = \<lparr> URL = URL (MainRepo cfg), Repository.Branch = branch,
                       Directory = Directory (MainRepo cfg), Auth = Auth (MainRepo cfg),
                       Repository.CommitConfig =
                         \<lparr> UserName = [], UserEmail = [], CommitConfig.Message = [] \<rparr> \<rparr>
      in
      (case checkAndUpdateRepo h cfg repoCopy s of
         (Inl e, s1) \<Rightarrow> (Inl (Wrapped ''failed to check/update main repo'' e), s1)
       | (Inr mainRepoUpdated, s1) \<Rightarrow>
           if \<not> UseSubmodules cfg then (Inr (), s1)
           else
             (case (if mainRepoUpdated
                    then (case updateSubmodules h cfg s1 of
                            (Inl e, s2) \<Rightarrow> (Inl (Wrapped ''failed to update submodules'' e), s2)
                          | (Inr _, s2) \<Rightarrow> (Inr True, s2))
                    else (case checkAndUpdateSubmodules h cfg s1 of
                            (Inl e, s2) \<Rightarrow>
                              (Inl (Wrapped ''failed to check and update submodules'' e), s2)
                          | (Inr b, s2) \<Rightarrow> (Inr b, s2))) of
                (Inl e, s2) \<Rightarrow> (Inl e, s2)
              | (Inr submodulesUpdated, s2) \<Rightarrow>
                  if AutoCommit cfg \<and> submodulesUpdated then
                    (case commitSubmoduleChangesToMainRepo h cfg branch s2 of
                       (Inl e, s3) \<Rightarrow>
                         (Inl (Wrapped
                            ''failed to commit submodule changes to main repository'' e), s3)
                     | (Inr _, s3) \<Rightarrow> (Inr (), s3))
                  else (Inr (), s2))))"

definition mergeCommitConfig :: "CommitConfig \<Rightarrow> CommitConfig \<Rightarrow> CommitConfig" where
  "mergeCommitConfig mainConfig artifactsConfig =
     \<lparr> UserName = (if UserName artifactsConfig \<noteq> [] then UserName artifactsConfig
                   else UserName mainConfig),
       UserEmail = (if UserEmail artifactsConfig \<noteq> [] then UserEmail artifactsConfig
                    else UserEmail mainConfig),
       CommitConfig.Message = (if CommitConfig.Message artifactsConfig \<noteq> []
                  then CommitConfig.Message artifactsConfig
                  else CommitConfig.Message mainConfig) \<rparr>"

subsection \<open>\<^verbatim>\<open>UpdateArtifactsRepo\<close>\<close>

text \<open>
  The feature branch \<^verbatim>\<open>fmt.Sprintf("feature-%s", repoName)\<close> and the file name
  \<^verbatim>\<open>fmt.Sprintf("%s.jsonnet", repoName)\<close>.
\<close>

definition featureBranchOf :: "string \<Rightarrow> string" where
  "featureBranchOf repoName = ''feature-'' @ repoName"

definition jsonnetFile :: "string \<Rightarrow> string" where
  "jsonnetFile repoName = repoName @ ''.jsonnet''"

text \<open>
  Lines 583 to 615: switching to the branch \<^verbatim>\<open>feature-<repoName>\<close>. The remote branch
  exists when the combined output of \<^verbatim>\<open>ls-remote\<close> is not blank.
\<close>

definition checkoutFeatureBranch ::
  "'w host \<Rightarrow> ArtifactsRepo \<Rightarrow> string \<Rightarrow> string \<Rightarrow> 'w st \<Rightarrow> (error + unit) \<times> 'w st" where
  "checkoutFeatureBranch h ar repoPath featureBranch s =
     (case git h repoPath [''ls-remote'', ''--heads'', ''origin'', featureBranch]
             (setupCredentials ar) s of (r1, s1) \<Rightarrow>
      if \<not> ok r1 then (Inl (Failed ''failed to check remote branch'' (combined r1)), s1)
      else if length (TrimSpace (combined r1)) > 0 then
        (case git h repoPath [''checkout'', featureBranch] NoCredentials s1 of (r2, s2) \<Rightarrow>
         if \<not> ok r2 then
           (case git h repoPath [''checkout'', ''-b'', featureBranch, ''origin/'' @ featureBranch]
                   NoCredentials s2 of (r3, s3) \<Rightarrow>
            if \<not> ok r3
            then (Inl (Failed ''failed to checkout feature branch'' (combined r3)), s3)
            else (Inr (), s3))
         else (Inr (), s2))
      else
        (case git h repoPath [''checkout'', ''-b'', featureBranch] NoCredentials s1 of (r2, s2) \<Rightarrow>
         if \<not> ok r2 then (Inl (Failed ''failed to create feature branch'' (combined r2)), s2)
         else (Inr (), s2)))"

text \<open>
  Lines 629 to 637: the existing content. A file that cannot be read counts as an empty
  document; \<open>None\<close> stands for the nil map that a top-level \<^verbatim>\<open>null\<close> leaves.
\<close>

definition readExistingContent :: "'w host \<Rightarrow> string \<Rightarrow> 'w \<Rightarrow> error + document option" where
  "readExistingContent h jsonnetPath w =
     (case readFile h jsonnetPath w of
        Some data \<Rightarrow>
          (case jsonUnmarshal h data of
             UnmarshalError \<Rightarrow> Inl (Failed ''failed to parse existing jsonnet file'' [])
           | NilMap \<Rightarrow> Inr None
           | GoMap m \<Rightarrow> Inr (Some m))
      | None \<Rightarrow> Inr (Some fmempty))"

text \<open>
  Lines 686 to 782: commit on the feature branch, forced push, merge into the target
  branch (the same merge command is tried a second time when it fails) and push.
\<close>

definition commitPushMerge ::
  "'w host \<Rightarrow> GitConfig \<Rightarrow> ArtifactsRepo \<Rightarrow> string \<Rightarrow> string \<Rightarrow> string \<Rightarrow> string \<Rightarrow> string
     \<Rightarrow> 'w st \<Rightarrow> (error + unit) \<times> 'w st" where
  "commitPushMerge h cfg ar repoPath featureBranch repoName pkgName version s =
     (let commitConfig = mergeCommitConfig (GitConfig.CommitConfig cfg) (Repository.CommitConfig ar) in
      (case setGitUser h repoPath commitConfig s of
         (Inl e, s1) \<Rightarrow> (Inl e, s1)
       | (Inr _, s1) \<Rightarrow>
      (let message = (if CommitConfig.Message commitConfig = [] then ''Update artifacts''
                      else CommitConfig.Message commitConfig);
           timestamp = now h (fst s1)
       in
       (case git h repoPath
               [''commit'', ''-m'',
                message @ newline @ newline @ ''Time: '' @ timestamp @ newline
                  @ ''ArtifactRepoName: '' @ repoName @ newline
                  @ ''Package: '' @ pkgName @ newline @ ''Version: '' @ version]
               NoCredentials s1 of (r2, s2) \<Rightarrow>
        if \<not> ok r2 then (Inl (Failed ''git commit failed'' (combined r2)), s2)
        else
        (case git h repoPath [''push'', ''-f'', ''origin'', featureBranch]
                (setupCredentials ar) s2 of (r3, s3) \<Rightarrow>
         if \<not> ok r3 then (Inl (Failed ''git push failed'' (combined r3)), s3)
         else
         (let targetBranch = (if AutoBranchName ar = [] then Repository.Branch ar
                              else AutoBranchName ar)
          in
          (case git h repoPath [''checkout'', targetBranch] NoCredentials s3 of (r4, s4) \<Rightarrow>
           if \<not> ok r4
           then (Inl (Failed (''failed to checkout target branch '' @ targetBranch) (combined r4)), s4)
           else
           (case git h repoPath [''reset'', ''--hard'', ''HEAD''] NoCredentials s4 of (r5, s5) \<Rightarrow>
            if \<not> ok r5
            then (Inl (Failed ''failed to cleanup unmerged files'' (combined r5)), s5)
            else
            (case git h repoPath [''pull'', ''origin'', targetBranch]
                    (setupCredentials ar) s5 of (r6, s6) \<Rightarrow>
             if \<not> ok r6
             then (Inl (Failed (''failed to pull target branch '' @ targetBranch) (combined r6)), s6)
             else
             (case git h repoPath
                     [''merge'', ''--no-ff'', ''--strategy-option=theirs'', featureBranch]
                     NoCredentials s6 of (r7, s7) \<Rightarrow>
              (case (if \<not> ok r7
                     then (case git h repoPath
                                  [''merge'', ''--no-ff'', ''--strategy-option=theirs'', featureBranch]
                                  NoCredentials s7 of (r8, s8) \<Rightarrow>
                           if \<not> ok r8
                           then (Inl (Failed (''failed to merge branch '' @ featureBranch
                                        @ '' into '' @ targetBranch) (combined r8)), s8)
                           else (Inr (), s8))
                     else (Inr (), s7)) of
                 (Inl e, s8) \<Rightarrow> (Inl e, s8)
               | (Inr _, s8) \<Rightarrow>
                   (case git h repoPath [''push'', ''origin'', targetBranch]
                           (setupCredentials ar) s8 of (r9, s9) \<Rightarrow>
                    if \<not> ok r9
                    then (Inl (Failed (''failed to push merged changes to '' @ targetBranch)
                                 (combined r9)), s9)
                    else (Inr (), s9)))))))))))))"

text \<open>
  Lines 660 to 683 and the test of line 686: the content is marshalled and written to
  the target path with \<^verbatim>\<open>os.WriteFile\<close>, the file is staged, and the commit sequence
  runs when \<^verbatim>\<open>git status --porcelain\<close> prints anything. \<^verbatim>\<open>json.MarshalIndent\<close> does
  not fail on a value that came out of the decoder.
\<close>

definition writeStageCommit ::
  "'w host \<Rightarrow> GitConfig \<Rightarrow> ArtifactsRepo \<Rightarrow> string \<Rightarrow> string \<Rightarrow> string \<Rightarrow> string \<Rightarrow> string
     \<Rightarrow> document \<Rightarrow> 'w st \<Rightarrow> (error + unit) \<times> 'w st" where
  "writeStageCommit h cfg ar repoPath featureBranch repoName pkgName version content s =
     (case osWriteFile h (pathJoin h repoPath (jsonnetFile repoName))
             (jsonMarshalIndent h content) s of (written, s1) \<Rightarrow>
      if \<not> written then (Inl (Failed ''failed to write jsonnet file'' []), s1)
      else
        (case git h repoPath [''add'', jsonnetFile repoName] NoCredentials s1 of (r2, s2) \<Rightarrow>
         if \<not> ok r2 then (Inl (Failed ''git add failed'' (combined r2)), s2)
         else
           (case git h repoPath [''status'', ''--porcelain''] NoCredentials s2 of (r3, s3) \<Rightarrow>
            if \<not> ok r3 then (Inl (Failed ''failed to check git status'' []), s3)
            else if length (TrimSpace (stdout r3)) > 0
            then commitPushMerge h cfg ar repoPath featureBranch repoName pkgName version s3
            else (Inr (), s3))))"

text \<open>
  Lines 569 to 581: the repository must be configured, and is cloned when its
  directory is missing.
\<close>

definition ensureCloned ::
  "'w host \<Rightarrow> GitConfig \<Rightarrow> ArtifactsRepo \<Rightarrow> 'w st \<Rightarrow> (error + unit) \<times> 'w st" where
  "ensureCloned h cfg ar s =
     (if \<not> pathExists h (pathJoin h (WorkingDir cfg) (Directory ar)) (fst s) then
        (case cloneRepo h cfg ar s of
           (Inl e, s1) \<Rightarrow> (Inl (Wrapped ''failed to clone artifacts repository'' e), s1)
         | (Inr _, s1) \<Rightarrow> (Inr (), s1))
      else (Inr (), s))"

text \<open>
  The whole function. The two locks it takes (the operation lock at entry, the lock of
  the target file before the read) do not show in a run of a single call. A write to a
  nil map panics; the deferred unlocks run and the panic leaves the function.
\<close>

definition UpdateArtifactsRepo ::
  "'w host \<Rightarrow> GitConfig \<Rightarrow> string \<Rightarrow> string \<Rightarrow> string \<Rightarrow> 'w st \<Rightarrow> (error + unit) \<times> 'w st" where
  "UpdateArtifactsRepo h cfg repoName pkgName version s =
     (case ArtifactsRepo cfg of
        None \<Rightarrow> (Inl (Errorf ''artifacts repository is not configured''), s)
      | Some ar \<Rightarrow>
          (let repoPath = pathJoin h (WorkingDir cfg) (Directory ar);
               featureBranch = featureBranchOf repoName
           in
           (case ensureCloned h cfg ar s of
              (Inl e, s1) \<Rightarrow> (Inl e, s1)
            | (Inr _, s1) \<Rightarrow>
           (case checkoutFeatureBranch h ar repoPath featureBranch s1 of
              (Inl e, s2) \<Rightarrow> (Inl e, s2)
            | (Inr _, s2) \<Rightarrow>
           (case readExistingContent h (pathJoin h repoPath (jsonnetFile repoName)) (fst s2) of
              Inl e \<Rightarrow> (Inl e, s2)
            | Inr None \<Rightarrow> (Inl (Panic ''assignment to entry in nil map''), s2)
            | Inr (Some existingContent) \<Rightarrow>
                (case updateContent existingContent repoName pkgName version of
                   None \<Rightarrow> (Inr (), s2)
                 | Some content \<Rightarrow>
                     writeStageCommit h cfg ar repoPath featureBranch repoName pkgName version
                       content s2))))))"

section \<open>The webhook client (\<^verbatim>\<open>internal/webhook\<close>)\<close>

text \<open>
  \<^verbatim>\<open>hex.EncodeToString\<close>: two lower-case digits per byte. \<^verbatim>\<open>generateSignature\<close> is the
  hexadecimal form of the HMAC-SHA256 of the payload under the secret.
\<close>

definition hexDigit :: "nat \<Rightarrow> char" where
  "hexDigit n = ''0123456789abcdef'' ! (n mod 16)"

definition hexEncode :: "string \<Rightarrow> string" where
  "hexEncode bytes =
     concat (map (\<lambda>c. [hexDigit ((of_char c :: nat) div 16), hexDigit (of_char c)]) bytes)"

definition generateSignature :: "'w host \<Rightarrow> string \<Rightarrow> string \<Rightarrow> string" where
  "generateSignature h payload secret = hexEncode (hmacSHA256 h secret payload)"

text \<open>
  \<^verbatim>\<open>SendNotification\<close>. \<open>validRequest\<close> is the success of \<^verbatim>\<open>http.NewRequest\<close>;
  \<open>httpDo\<close> gives the status and body of the response, or nothing when the transport
  fails.
\<close>

definition SendNotification ::
  "'w host \<Rightarrow> WebhookConfig \<Rightarrow> WebhookPayload \<Rightarrow> 'w st \<Rightarrow> (error + unit) \<times> 'w st" where
  "SendNotification h wcfg payload s =
     (if CallbackURL wcfg = [] then (Inl (Errorf ''webhook URL is not configured''), s)
      else
        (let bytes = jsonMarshalPayload h payload;
             m = (if Method wcfg = [] then ''POST'' else Method wcfg)
         in
         if \<not> validRequest h m (CallbackURL wcfg)
         then (Inl (Errorf ''failed to create request''), s)
         else
           (let req = \<lparr> requestMethod = m, url = CallbackURL wcfg,
                        contentType = ''application/json'',
                        signature = (if Secret wcfg \<noteq> []
                                     then Some (generateSignature h bytes (Secret wcfg))
                                     else None),
                        payloadBytes = bytes \<rparr>
            in
            (case httpDo h req (fst s) of (resp, w') \<Rightarrow>
             (case resp of
                None \<Rightarrow> (Inl (Errorf ''failed to send webhook''), (w', snd s @ [HttpSend req]))
              | Some (status, body) \<Rightarrow>
                  if status < 200 \<or> status \<ge> 300
                  then (Inl (Failed ''webhook request failed with status'' body),
                        (w', snd s @ [HttpSend req]))
                  else (Inr (), (w', snd s @ [HttpSend req])))))))"

text \<open>
  An inbound trigger request, as far as \<^verbatim>\<open>ValidateWebhook\<close> reads it: the value of the
  header \<^verbatim>\<open>X-Webhook-Signature\<close> (empty when absent) and the body (\<open>None\<close> when reading
  it fails).
\<close>

record trigger_request =
  signatureHeader :: string
  body :: "string option"

text \<open>Lines 137 to 144: the branch taken from the reference.\<close>

definition resolveBranch :: "WebhookTriggerRequest \<Rightarrow> WebhookTriggerRequest" where
  "resolveBranch payload =
     (if WebhookTriggerRequest.Branch payload = [] \<and> Reference payload \<noteq> [] then
        (let parts = splitOn CHR ''/'' (Reference payload) in
         if length parts \<ge> 3 \<and> parts ! 0 = ''refs'' \<and> parts ! 1 = ''heads''
         then payload \<lparr> WebhookTriggerRequest.Branch := parts ! 2 \<rparr>
         else payload)
      else payload)"

definition ValidateWebhook ::
  "'w host \<Rightarrow> WebhookConfig \<Rightarrow> trigger_request \<Rightarrow> error + WebhookTriggerRequest" where
  "ValidateWebhook h wcfg r =
     (if Secret wcfg \<noteq> [] then
        (if signatureHeader r = [] then Inl (Errorf ''missing webhook signature'')
         else
           (case body r of
              None \<Rightarrow> Inl (Errorf ''failed to read request body'')
            | Some b \<Rightarrow>
                if signatureHeader r \<noteq> generateSignature h b (Secret wcfg)
                then Inl (Errorf ''invalid webhook signature'')
                else
                  (case jsonUnmarshalTrigger h b of
                     None \<Rightarrow> Inl (Errorf ''failed to unmarshal payload'')
                   | Some payload \<Rightarrow> Inr (resolveBranch payload))))
      else
        (case body r of
           None \<Rightarrow> Inl (Errorf ''failed to decode payload'')
         | Some b \<Rightarrow>
             (case jsonDecodeTrigger h b of
                None \<Rightarrow> Inl (Errorf ''failed to decode payload'')
              | Some payload \<Rightarrow> Inr (resolveBranch payload))))"

section \<open>The scheduler (\<^verbatim>\<open>internal/scheduler/scheduler.go\<close>)\<close>

text \<open>The loop of lines 104 to 112: the branches whose check returned no error.\<close>

fun checkBranches ::
  "'w host \<Rightarrow> GitConfig \<Rightarrow> string list \<Rightarrow> 'w st \<Rightarrow> string list \<times> 'w st" where
  "checkBranches h cfg [] s = ([], s)"
| "checkBranches h cfg (branch # rest) s =
     (case CheckAndUpdateRepoBranch h cfg branch s of
        (Inr _, s1) \<Rightarrow>
          (case checkBranches h cfg rest s1 of
             (updatedBranches, s2) \<Rightarrow> (branch # updatedBranches, s2))
      | (Inl _, s1) \<Rightarrow> checkBranches h cfg rest s1)"

text \<open>The loop of lines 123 to 145: one entry of \<open>repoUpdates\<close> per collected branch.\<close>

fun addRepoUpdates ::
  "'w host \<Rightarrow> GitConfig \<Rightarrow> string list \<Rightarrow> (string, RepoUpdate) fmap \<Rightarrow> 'w st
     \<Rightarrow> (string, RepoUpdate) fmap \<times> 'w st" where
  "addRepoUpdates h cfg [] repoUpdates s = (repoUpdates, s)"
| "addRepoUpdates h cfg (branch # rest) repoUpdates s =
     (let repoCopy = \<lparr> URL = URL (MainRepo cfg), Repository.Branch = branch,
                       Directory = Directory (MainRepo cfg), Auth = Auth (MainRepo cfg),
                       Repository.CommitConfig =
                         \<lparr> UserName = [], UserEmail = [], CommitConfig.Message = [] \<rparr> \<rparr>
      in
      (case GetLastCommitHash h cfg repoCopy s of (res, s1) \<Rightarrow>
       addRepoUpdates h cfg rest
         (fmupd branch
            \<lparr> RepoUpdate.Repository = URL (MainRepo cfg), RepoUpdate.Branch = branch,
              RepoUpdate.Timestamp = now h (fst s1),
              RepoUpdate.CommitHash = (case res of Inl _ \<Rightarrow> ''unknown'' | Inr commitHash \<Rightarrow> commitHash) \<rparr>
            repoUpdates)
         s1))"

fun showNat :: "nat \<Rightarrow> string" where
  "showNat n =
     (if n < 10 then [''0123456789'' ! n]
      else showNat (n div 10) @ [''0123456789'' ! (n mod 10)])"

text \<open>
  \<^verbatim>\<open>runCheck\<close>. The Go function returns nothing; the model returns the payload it hands
  to \<^verbatim>\<open>SendNotification\<close> (\<open>None\<close> on the early return), whose error is only logged.
\<close>

definition runCheck ::
  "'w host \<Rightarrow> GitConfig \<Rightarrow> WebhookConfig \<Rightarrow> 'w st \<Rightarrow> WebhookPayload option \<times> 'w st" where
  "runCheck h cfg wcfg s =
     (case checkBranches h cfg (Branches cfg) s of (updatedBranches, s1) \<Rightarrow>
      if length updatedBranches = 0 then (None, s1)
      else
        (case addRepoUpdates h cfg updatedBranches fmempty s1 of (repoUpdates, s2) \<Rightarrow>
         (let payload = \<lparr> WebhookPayload.Event = ''repository_update'',
                           WebhookPayload.Timestamp = now h (fst s2),
                           WebhookPayload.Branch = [],
                           WebhookPayload.RepoUpdates = repoUpdates,
                           WebhookPayload.Message = ''Updated '' @ showNat (length updatedBranches)
                             @ '' branches: ['' @ joinWith '' '' updatedBranches @ '']'' \<rparr>
          in (case SendNotification h wcfg payload s2 of (_, s3) \<Rightarrow> (Some payload, s3)))))"

section \<open>Observing a run\<close>

text \<open>
  The steps that publish: a file write, and the git commands that stage, commit, push
  or merge.
\<close>

fun isPublishStep :: "action \<Rightarrow> bool" where
  "isPublishStep (WriteFile path data) = True"
| "isPublishStep (Git dir args cred) =
     (take 1 args \<in> set [ [''add''], [''commit''], [''push''], [''merge''] ])"
| "isPublishStep (HttpSend req) = False"

section \<open>A concrete host\<close>

text \<open>
  A host for concrete runs: the world is the list of files written so far (newest
  first, over the initial files), every path exists, and the git program answers by a
  script that looks at the directory and the arguments only.
\<close>

type_synonym files = "(string \<times> string) list"

definition scriptedHost ::
  "(string \<Rightarrow> string list \<Rightarrow> cmd_result) \<Rightarrow> (string \<Rightarrow> unmarshalled) \<Rightarrow> files host" where
  "scriptedHost script decode =
     \<lparr> pathJoin = (\<lambda>a b. a @ ''/'' @ b),
       pathExists = (\<lambda>path w. True),
       readFile = (\<lambda>path w. map_of w path),
       writeFile = (\<lambda>path data w. (True, (path, data) # w)),
       exec = (\<lambda>dir args cred w. (script dir args, w)),
       now = (\<lambda>w. ''2024-05-01T10:00:00Z''),
       jsonUnmarshal = decode,
       jsonMarshalIndent = (\<lambda>content. ''{ }''),
       jsonMarshalPayload = (\<lambda>payload. ''{ }''),
       jsonUnmarshalTrigger = (\<lambda>b. None),
       jsonDecodeTrigger = (\<lambda>b. None),
       hmacSHA256 = (\<lambda>key message. replicate 32 (CHR 0x00)),
       validRequest = (\<lambda>m u. True),
       httpDo = (\<lambda>req w. (Some (200, []), w)) \<rparr>"

definition success :: "string \<Rightarrow> cmd_result" where
  "success out = \<lparr> ok = True, stdout = out, combined = out \<rparr>"

definition failure :: "string \<Rightarrow> cmd_result" where
  "failure out = \<lparr> ok = False, stdout = [], combined = out \<rparr>"

definition noAuth :: AuthConfig where
  "noAuth = \<lparr> Type = ''none'', Username = [], Password = [], SSHPrivateKey = [],
              SSHKeyPath = [] \<rparr>"

definition noCommitConfig :: CommitConfig where
  "noCommitConfig = \<lparr> UserName = [], UserEmail = [], CommitConfig.Message = [] \<rparr>"

definition exampleArtifactsRepo :: ArtifactsRepo where
  "exampleArtifactsRepo =
     \<lparr> URL = ''https://git.example.org/artifacts.git'', Repository.Branch = ''main'',
       Directory = ''artifacts'', Auth = noAuth, Repository.CommitConfig = noCommitConfig,
       UseMainAuth = False, UseMainCommit = False, AutoBranchName = [] \<rparr>"

definition exampleConfig :: GitConfig where
  "exampleConfig =
     \<lparr> WorkingDir = ''repos'', UseSubmodules = False, Branches = [''main'', ''develop''],
       AutoCommit = False, GitConfig.CommitConfig = noCommitConfig,
       MainRepo = \<lparr> URL = ''https://git.example.org/main.git'', Repository.Branch = ''main'',
                    Directory = ''main-repo'', Auth = noAuth,
                    Repository.CommitConfig = noCommitConfig \<rparr>,
       ArtifactsRepo = Some exampleArtifactsRepo \<rparr>"

text \<open>
  Git for the artifact repository: the feature branch exists on the remote, the status
  after staging shows the target file, every command succeeds.
\<close>

definition artifactsGit :: "string \<Rightarrow> string list \<Rightarrow> cmd_result" where
  "artifactsGit dir args =
     (if take 1 args = [''ls-remote''] then success ''4be3c1 refs/heads/feature-app''
      else if args = [''status'', ''--porcelain''] then success ''M  app.jsonnet''
      else success [])"

text \<open>The document \<^verbatim>\<open>{"app": {"pkg": {"1.2.3": "1.2.3-45"}}}\<close>.\<close>

definition exampleDocument :: document where
  "exampleDocument =
     fmupd ''app'' (JObj (fmupd ''pkg'' (JObj (fmupd ''1.2.3'' (JStr ''1.2.3-45'') fmempty))
       fmempty)) fmempty"

text \<open>
  The working copy holds the file of \<open>exampleDocument\<close>; \<open>afterCheckout\<close> is the run up
  to the switch to the feature branch.
\<close>

definition exampleFiles :: files where
  "exampleFiles = [(''repos/artifacts/app.jsonnet'', ''{ }'')]"

definition exampleHost :: "files host" where
  "exampleHost = scriptedHost artifactsGit (\<lambda>data. GoMap exampleDocument)"

definition afterCheckout :: "action list" where
  "afterCheckout =
     [Git ''repos/artifacts'' [''ls-remote'', ''--heads'', ''origin'', ''feature-app'']
        NoCredentials,
      Git ''repos/artifacts'' [''checkout'', ''feature-app''] NoCredentials]"

text \<open>
  An inbound trigger without a \<^verbatim>\<open>branch\<close> field whose reference names the branch
  \<^verbatim>\<open>feature/login\<close>, and a host whose decoders yield its fields.
\<close>

definition quoted :: "string \<Rightarrow> string" where
  "quoted s = CHR 0x22 # s @ [CHR 0x22]"

definition pushBody :: string where
  "pushBody = ''{'' @ quoted ''event'' @ '':'' @ quoted ''push'' @ '','' @ quoted ''reference''
     @ '':'' @ quoted ''refs/heads/feature/login'' @ ''}''"

definition triggerHost :: "files host" where
  "triggerHost =
     (scriptedHost artifactsGit (\<lambda>data. UnmarshalError))
       \<lparr> jsonUnmarshalTrigger :=
           (\<lambda>b. if b = pushBody
                then Some \<lparr> WebhookTriggerRequest.Event = ''push'', WebhookTriggerRequest.Branch = [],
                            Reference = ''refs/heads/feature/login'' \<rparr>
                else None),
         jsonDecodeTrigger :=
           (\<lambda>b. if b = pushBody
                then Some \<lparr> WebhookTriggerRequest.Event = ''push'', WebhookTriggerRequest.Branch = [],
                            Reference = ''refs/heads/feature/login'' \<rparr>
                else None) \<rparr>"

text \<open>
  A scheduled tick: the branches \<open>main\<close> and \<open>develop\<close> are configured, the remote has
  one new commit on \<open>develop\<close> and none on \<open>main\<close>, every command succeeds.
  \<open>pulledBranches\<close> lists the branches that a run pulled.
\<close>

definition syncGit :: "string \<Rightarrow> string list \<Rightarrow> cmd_result" where
  "syncGit dir args =
     (if args = [''rev-list'', ''HEAD..origin/develop'', ''--count''] then success (''1'' @ newline)
      else if take 1 args = [''rev-list''] then success (''0'' @ newline)
      else if args = [''rev-parse'', ''HEAD''] then success (''5d41402abc4b'' @ newline)
      else success [])"

definition syncHost :: "files host" where
  "syncHost = scriptedHost syncGit (\<lambda>data. UnmarshalError)"

definition exampleWebhook :: WebhookConfig where
  "exampleWebhook = \<lparr> CallbackURL = ''https://hooks.example.org/notify'', Secret = [], Method = [] \<rparr>"

definition pulledBranches :: "action list \<Rightarrow> string list" where
  "pulledBranches trace =
     concat (map (\<lambda>a. case a of
                        Git dir args cred \<Rightarrow>
                          (if take 2 args = [''pull'', ''origin''] then drop 2 args else [])
                      | _ \<Rightarrow> []) trace)"

definition sentRequests :: "action list \<Rightarrow> http_request list" where
  "sentRequests trace =
     concat (map (\<lambda>a. case a of HttpSend req \<Rightarrow> [req] | _ \<Rightarrow> []) trace)"

definition checkedTrace :: "action list" where
  "checkedTrace =
     [Git ''repos/main-repo'' [''fetch'', ''origin'', ''main''] NoCredentials,
      Git ''repos/main-repo'' [''rev-list'', ''HEAD..origin/main'', ''--count''] NoCredentials,
      Git ''repos/main-repo'' [''fetch'', ''origin'', ''develop''] NoCredentials,
      Git ''repos/main-repo'' [''rev-list'', ''HEAD..origin/develop'', ''--count''] NoCredentials,
      Git ''repos/main-repo'' [''checkout'', ''develop''] NoCredentials,
      Git ''repos/main-repo'' [''pull'', ''origin'', ''develop''] NoCredentials]"

definition exampleUpdate :: "string \<Rightarrow> RepoUpdate" where
  "exampleUpdate branch =
     \<lparr> RepoUpdate.Repository = ''https://git.example.org/main.git'', RepoUpdate.Branch = branch,
       RepoUpdate.Timestamp = ''2024-05-01T10:00:00Z'', RepoUpdate.CommitHash = ''5d41402abc4b'' \<rparr>"

definition hashedTrace :: "action list" where
  "hashedTrace =
     checkedTrace @ [Git ''repos/main-repo'' [''rev-parse'', ''HEAD''] NoCredentials,
                     Git ''repos/main-repo'' [''rev-parse'', ''HEAD''] NoCredentials]"

text \<open>
  A working copy of the main repository that declares one submodule, \<^verbatim>\<open>libs/core\<close>.
  \<open>updateAttempts\<close> lists the submodules for which a run issued the update command.
\<close>

definition gitmodulesText :: string where
  "gitmodulesText =
     ''[submodule '' @ quoted ''libs/core'' @ '']'' @ newline
       @ ''path = libs/core'' @ newline
       @ ''url = https://git.example.org/core.git'' @ newline"

definition gitmodulesFiles :: files where
  "gitmodulesFiles = [(''repos/main-repo/.gitmodules'', gitmodulesText)]"

text \<open>
  Git for the submodule pass: every command succeeds, and the head of a submodule reads
  the same at any time (the remote has nothing new for it).
\<close>

definition submoduleGit :: "string \<Rightarrow> string list \<Rightarrow> cmd_result" where
  "submoduleGit dir args =
     (if args = [''rev-parse'', ''HEAD''] then success (''9f2c1e7a'' @ newline)
      else success [])"

definition submoduleHost :: "files host" where
  "submoduleHost = scriptedHost submoduleGit (\<lambda>data. UnmarshalError)"

text \<open>Git for a pass in which the update of \<^verbatim>\<open>libs/broken\<close> fails.\<close>

definition partialGit :: "string \<Rightarrow> string list \<Rightarrow> cmd_result" where
  "partialGit dir args =
     (if args = [''submodule'', ''update'', ''--recursive'', ''--remote'', ''libs/broken'']
      then failure ''fatal: no submodule mapping found''
      else if args = [''rev-parse'', ''HEAD''] then success (''9f2c1e7a'' @ newline)
      else success [])"

definition updateAttempts :: "action list \<Rightarrow> string list" where
  "updateAttempts trace =
     concat (map (\<lambda>a. case a of
                        Git dir args cred \<Rightarrow>
                          (if take 4 args = [''submodule'', ''update'', ''--recursive'', ''--remote'']
                           then drop 4 args else [])
                      | _ \<Rightarrow> []) trace)"

text \<open>
  The file writes of a run, in order: path and data of every \<^verbatim>\<open>os.WriteFile\<close>. The
  program has no other operation that changes a file (it never renames or removes one).
  \<open>gitOnly\<close> says that a step writes no file.
\<close>

definition fileWrites :: "action list \<Rightarrow> (string \<times> string) list" where
  "fileWrites trace =
     concat (map (\<lambda>a. case a of WriteFile path data \<Rightarrow> [(path, data)] | _ \<Rightarrow> []) trace)"

definition gitOnly :: "('w st \<Rightarrow> 'a \<times> 'w st) \<Rightarrow> bool" where
  "gitOnly m \<longleftrightarrow> (\<forall>s. fileWrites (snd (snd (m s))) = fileWrites (snd s))"

section \<open>Properties of the version family\<close>

lemma splitOn_not_Nil: "splitOn sep s \<noteq> []"
  by (induction s) (auto split: list.splits)

lemma splitOn_no_sep: "sep \<notin> set s \<Longrightarrow> splitOn sep s = [s]"
  by (induction s) auto

lemma splitOn_append_sep:
  "splitOn sep (p @ sep # s) = splitOn sep p @ splitOn sep s"
proof (induction p)
  case Nil
  show ?case by simp
next
  case (Cons c p)
  obtain q qs where q: "splitOn sep p = q # qs"
    using splitOn_not_Nil [of sep p] by (cases "splitOn sep p") auto
  with Cons show ?case by simp
qed

lemma joinWith_splitOn: "joinWith [sep] (splitOn sep s) = s"
proof (induction s)
  case Nil
  show ?case by simp
next
  case (Cons c s)
  obtain q qs where q: "splitOn sep s = q # qs"
    using splitOn_not_Nil [of sep s] by (cases "splitOn sep s") auto
  show ?case
  proof (cases "c = sep")
    case True
    with Cons q show ?thesis by simp
  next
    case False
    with Cons q show ?thesis by (cases qs) auto
  qed
qed

lemma versionPrefix_dash:
  assumes "CHR ''-'' \<notin> set s"
  shows "versionPrefix (p @ CHR ''-'' # s) = p"
proof -
  have "splitOn CHR ''-'' (p @ CHR ''-'' # s) = splitOn CHR ''-'' p @ [s]"
    using assms by (simp add: splitOn_append_sep splitOn_no_sep)
  then show ?thesis
    using joinWith_splitOn [of "CHR ''-''" p] by (simp add: versionPrefix_def)
qed

lemma versionPrefix_no_dash:
  assumes "CHR ''-'' \<notin> set version"
  shows "versionPrefix version = []"
  using assms by (simp add: versionPrefix_def splitOn_no_sep)

section \<open>The document step\<close>

lemma asMap_simps [simp]:
  "asMap None = None"
  "asMap (Some (JObj m)) = Some m"
  by (simp_all add: asMap_def)

lemma repoContentOf_fmupd:
  "repoContentOf (fmupd r (JObj m) doc) r' = (if r' = r then m else repoContentOf doc r')"
  by (simp add: repoContentOf_def)

lemma pkgContentOf_fmupd:
  "pkgContentOf (fmupd r (JObj (fmupd p (JObj m) (repoContentOf doc r))) doc) r' p' =
     (if r' = r \<and> p' = p then m else pkgContentOf doc r' p')"
  by (simp add: pkgContentOf_def repoContentOf_fmupd)

lemma updateContent_Some:
  assumes "updateContent doc r p v = Some doc'"
  shows "doc' = fmupd r (JObj (fmupd p (JObj (fmupd (versionPrefix v) (JStr v) (pkgContentOf doc r p)))
                      (repoContentOf doc r))) doc"
  using assms by (simp add: updateContent_def Let_def split: if_splits)

lemma pkgContentOf_updateContent:
  assumes "updateContent doc r p v = Some doc'"
  shows "pkgContentOf doc' r' p' =
     (if r' = r \<and> p' = p then fmupd (versionPrefix v) (JStr v) (pkgContentOf doc r p)
      else pkgContentOf doc r' p')"
  unfolding updateContent_Some [OF assms] by (rule pkgContentOf_fmupd)

lemma storedVersion_updateContent:
  assumes "updateContent doc r p v = Some doc'"
  shows "storedVersion doc' r' p' f' =
     (if r' = r \<and> p' = p \<and> f' = versionPrefix v then Some (JStr v)
      else storedVersion doc r' p' f')"
  using pkgContentOf_updateContent [OF assms, of r' p'] by (simp add: storedVersion_def)

lemma updateContent_None_iff:
  "updateContent doc r p v = None \<longleftrightarrow> storedVersion doc r p (versionPrefix v) = Some (JStr v)"
  by (simp add: updateContent_def storedVersion_def Let_def)

lemma storedVersion_publishOne:
  "storedVersion (publishOne doc (r, p, v)) r' p' f' =
     (if r' = r \<and> p' = p \<and> f' = versionPrefix v then Some (JStr v)
      else storedVersion doc r' p' f')"
proof (cases "updateContent doc r p v")
  case None
  then show ?thesis using updateContent_None_iff [of doc r p v] by (auto simp: publishOne_def)
next
  case (Some doc')
  then show ?thesis using storedVersion_updateContent [OF Some] by (simp add: publishOne_def)
qed

lemma filter_eq_distinct:
  "distinct xs \<Longrightarrow> filter (\<lambda>x. x = k) xs = (if k \<in> set xs then [k] else [])"
  by (induction xs) auto

lemma filter_key_sorted_list_of_fmap:
  "filter (\<lambda>kv. fst kv = k) (sorted_list_of_fmap m) =
     (case fmlookup m k of None \<Rightarrow> [] | Some v \<Rightarrow> [(k, v)])"
proof -
  have d: "distinct (sorted_list_of_fset (fmdom m))"
    by (simp add: sorted_list_of_fset.rep_eq)
  have "filter (\<lambda>kv. fst kv = k) (sorted_list_of_fmap m)
      = map (\<lambda>k. (k, the (fmlookup m k))) (filter (\<lambda>x. x = k) (sorted_list_of_fset (fmdom m)))"
    by (simp add: sorted_list_of_fmap_def filter_map comp_def)
  also have "filter (\<lambda>x. x = k) (sorted_list_of_fset (fmdom m)) = (if k |\<in>| fmdom m then [k] else [])"
    using filter_eq_distinct [OF d, of k] by simp
  finally show ?thesis
    by (auto simp: fmlookup_dom_iff split: option.splits)
qed

lemma familyMembers_eq:
  "familyMembers doc r p f =
     (case storedVersion doc r p f of None \<Rightarrow> [] | Some v \<Rightarrow> [(f, v)])"
  by (simp add: familyMembers_def storedVersion_def filter_key_sorted_list_of_fmap)


lemma length_familyMembers: "length (familyMembers doc r p f) \<le> 1"
  by (simp add: familyMembers_eq split: option.splits)

lemma versionPrefix_eq_stripLastSegment: "versionPrefix version = stripLastSegment version"
proof (cases "CHR ''-'' \<in> set version")
  case True
  then obtain p s where v: "version = p @ CHR ''-'' # s" and s: "CHR ''-'' \<notin> set s"
    using split_list_last [of "CHR ''-''" version] by blast
  have "dropWhile (\<lambda>c. c \<noteq> CHR ''-'') (rev s @ CHR ''-'' # rev p) = CHR ''-'' # rev p"
    using s by (auto simp: dropWhile_append3)
  then have "stripLastSegment version = p"
    by (simp add: stripLastSegment_def v)
  then show ?thesis using versionPrefix_dash [OF s, of p] v by simp
next
  case False
  have dw: "dropWhile (\<lambda>c. c \<noteq> CHR ''-'') (rev version) = []"
    using False by auto
  show ?thesis
    unfolding stripLastSegment_def dw using versionPrefix_no_dash [OF False] by simp
qed

lemma UpdateArtifactsRepo_at_document:
  assumes "ArtifactsRepo cfg = Some ar"
    and "ensureCloned h cfg ar s = (Inr (), s1)"
    and "checkoutFeatureBranch h ar (pathJoin h (WorkingDir cfg) (Directory ar))
           (featureBranchOf repoName) s1 = (Inr (), s2)"
    and "readExistingContent h
           (pathJoin h (pathJoin h (WorkingDir cfg) (Directory ar)) (jsonnetFile repoName))
           (fst s2) = Inr (Some existingContent)"
  shows "UpdateArtifactsRepo h cfg repoName pkgName version s =
     (case updateContent existingContent repoName pkgName version of
        None \<Rightarrow> (Inr (), s2)
      | Some content \<Rightarrow>
          writeStageCommit h cfg ar (pathJoin h (WorkingDir cfg) (Directory ar))
            (featureBranchOf repoName) repoName pkgName version content s2)"
  using assms by (simp add: UpdateArtifactsRepo_def Let_def)

section \<open>What a run does\<close>

lemma snd_git: "snd (snd (git h dir args cred s)) = snd s @ [Git dir args cred]"
  by (simp add: git_def split: prod.splits)

lemma git_trace:
  "git h dir args cred s = (r, s') \<Longrightarrow> snd s' = snd s @ [Git dir args cred]"
  using snd_git [of h dir args cred s] by simp

lemma updateSubmodules_publish:
  "updateSubmodules h cfg s = (res, s') \<Longrightarrow>
     filter isPublishStep (snd s') = filter isPublishStep (snd s)"
  by (auto simp: updateSubmodules_def Let_def split: if_splits prod.splits dest!: git_trace)

lemma cloneRepo_publish:
  "cloneRepo h cfg repo s = (res, s') \<Longrightarrow>
     filter isPublishStep (snd s') = filter isPublishStep (snd s)"
  by (auto simp: cloneRepo_def Let_def split: if_splits prod.splits option.splits
           dest!: git_trace updateSubmodules_publish)

lemma ensureCloned_publish:
  "ensureCloned h cfg ar s = (res, s') \<Longrightarrow>
     filter isPublishStep (snd s') = filter isPublishStep (snd s)"
  by (auto simp: ensureCloned_def split: if_splits prod.splits sum.splits
           dest!: cloneRepo_publish)

lemma checkoutFeatureBranch_publish:
  "checkoutFeatureBranch h ar repoPath fb s = (res, s') \<Longrightarrow>
     filter isPublishStep (snd s') = filter isPublishStep (snd s)"
  by (auto simp: checkoutFeatureBranch_def split: if_splits prod.splits dest!: git_trace)

lemma updateContent_publishOne:
  "updateContent (publishOne doc (r, p, v)) r p v = None"
  by (simp add: updateContent_None_iff storedVersion_publishOne)

section \<open>An already published version\<close>

text \<open>
  Claim C1. Take a call of \<^verbatim>\<open>UpdateArtifactsRepo\<close> that gets to the document: the
  artifact repository is configured, the working copy is there (or its clone succeeds)
  and the switch to the feature branch succeeds. If the document it reads maps
  \<open>document[repoName][pkgName][family]\<close> to exactly the string \<open>version\<close>, the call
  returns success in the state the switch left: nothing is written, and no stage,
  commit, push or merge command is run. The document that a publication of
  (repository, package, version) leaves is such a document, so a second publication
  of the same triple is this early return.
\<close>

theorem already_published_short_circuit:
  assumes "ArtifactsRepo cfg = Some ar"
    and "ensureCloned h cfg ar s = (Inr (), s1)"
    and "checkoutFeatureBranch h ar (pathJoin h (WorkingDir cfg) (Directory ar))
           (featureBranchOf repoName) s1 = (Inr (), s2)"
    and "readExistingContent h
           (pathJoin h (pathJoin h (WorkingDir cfg) (Directory ar)) (jsonnetFile repoName))
           (fst s2) = Inr (Some document)"
    and "storedVersion document repoName pkgName (versionPrefix version) = Some (JStr version)"
  shows "UpdateArtifactsRepo h cfg repoName pkgName version s = (Inr (), s2)
       \<and> filter isPublishStep (snd s2) = filter isPublishStep (snd s)
       \<and> updateContent (publishOne d (repoName, pkgName, version)) repoName pkgName version = None"
proof -
  have "updateContent document repoName pkgName version = None"
    using assms(5) by (simp add: updateContent_None_iff)
  then have "UpdateArtifactsRepo h cfg repoName pkgName version s = (Inr (), s2)"
    using UpdateArtifactsRepo_at_document [OF assms(1-4), of pkgName version] by simp
  moreover have "filter isPublishStep (snd s2) = filter isPublishStep (snd s)"
    using ensureCloned_publish [OF assms(2)] checkoutFeatureBranch_publish [OF assms(3)] by simp
  ultimately show ?thesis
    using updateContent_publishOne by simp
qed

lemma example_configured: "ArtifactsRepo exampleConfig = Some exampleArtifactsRepo"
  by (simp add: exampleConfig_def)

lemma example_ensureCloned:
  "ensureCloned exampleHost exampleConfig exampleArtifactsRepo (exampleFiles, [])
     = (Inr (), (exampleFiles, []))"
  by (simp add: ensureCloned_def exampleHost_def scriptedHost_def)

lemma example_checkout:
  "checkoutFeatureBranch exampleHost exampleArtifactsRepo
     (pathJoin exampleHost (WorkingDir exampleConfig) (Directory exampleArtifactsRepo))
     (featureBranchOf ''app'') (exampleFiles, []) = (Inr (), (exampleFiles, afterCheckout))"
  by (simp add: checkoutFeatureBranch_def exampleHost_def scriptedHost_def git_def
        artifactsGit_def success_def exampleConfig_def exampleArtifactsRepo_def
        featureBranchOf_def setupCredentials_def noAuth_def TrimSpace_def isSpace_def
        afterCheckout_def)

lemma example_read:
  "readExistingContent exampleHost
     (pathJoin exampleHost
        (pathJoin exampleHost (WorkingDir exampleConfig) (Directory exampleArtifactsRepo))
        (jsonnetFile ''app''))
     (fst (exampleFiles, afterCheckout)) = Inr (Some exampleDocument)"
  by (simp add: readExistingContent_def exampleHost_def scriptedHost_def exampleConfig_def
        exampleArtifactsRepo_def jsonnetFile_def exampleFiles_def)

lemma example_stored:
  "storedVersion exampleDocument ''app'' ''pkg'' ''1.2.3'' = Some (JStr ''1.2.3-45'')"
  by (simp add: storedVersion_def pkgContentOf_def repoContentOf_def exampleDocument_def)

lemma example_versionPrefix: "versionPrefix ''1.2.3-45'' = ''1.2.3''"
  by (simp add: versionPrefix_def)

theorem already_published_short_circuit_witness:
  "storedVersion exampleDocument ''app'' ''pkg'' (versionPrefix ''1.2.3-45'')
     = Some (JStr ''1.2.3-45'')
   \<and> UpdateArtifactsRepo exampleHost exampleConfig ''app'' ''pkg'' ''1.2.3-45'' (exampleFiles, [])
     = (Inr (), (exampleFiles, afterCheckout))
   \<and> filter isPublishStep afterCheckout = []"
proof -
  have stored: "storedVersion exampleDocument ''app'' ''pkg'' (versionPrefix ''1.2.3-45'')
     = Some (JStr ''1.2.3-45'')"
    by (simp add: example_versionPrefix example_stored)
  show ?thesis
    using already_published_short_circuit
      [OF example_configured example_ensureCloned example_checkout example_read stored,
       of fmempty]
      stored
    by simp
qed

lemma UpdateArtifactsRepo_after_document:
  assumes "ArtifactsRepo cfg = Some ar"
    and "ensureCloned h cfg ar s = (Inr (), s1)"
    and "checkoutFeatureBranch h ar (pathJoin h (WorkingDir cfg) (Directory ar))
           (featureBranchOf repoName) s1 = (Inr (), s2)"
    and "readExistingContent h
           (pathJoin h (pathJoin h (WorkingDir cfg) (Directory ar)) (jsonnetFile repoName))
           (fst s2) = Inr (Some existingContent)"
  shows "UpdateArtifactsRepo h cfg repoName pkgName version s =
     (if storedVersion existingContent repoName pkgName (versionPrefix version)
           = Some (JStr version)
      then (Inr (), s2)
      else writeStageCommit h cfg ar (pathJoin h (WorkingDir cfg) (Directory ar))
             (featureBranchOf repoName) repoName pkgName version
             (publishOne existingContent (repoName, pkgName, version)) s2)"
proof (cases "updateContent existingContent repoName pkgName version")
  case None
  then show ?thesis
    using UpdateArtifactsRepo_at_document [OF assms, of pkgName version]
      updateContent_None_iff [of existingContent repoName pkgName version]
    by simp
next
  case (Some content)
  then have "storedVersion existingContent repoName pkgName (versionPrefix version)
      \<noteq> Some (JStr version)"
    using updateContent_None_iff [of existingContent repoName pkgName version] by simp
  then show ?thesis
    using UpdateArtifactsRepo_at_document [OF assms, of pkgName version] Some
    by (simp add: publishOne_def)
qed

lemma example_repoPath:
  "pathJoin exampleHost (WorkingDir exampleConfig) (Directory exampleArtifactsRepo) = ''repos/artifacts''"
  by (simp add: exampleHost_def scriptedHost_def exampleConfig_def exampleArtifactsRepo_def)

lemma example_writeStageCommit:
  "fst (writeStageCommit exampleHost exampleConfig exampleArtifactsRepo ''repos/artifacts''
     (featureBranchOf ''app'') ''app'' ''pkg'' version content (exampleFiles, afterCheckout)) = Inr ()"
  by (simp add: writeStageCommit_def commitPushMerge_def setGitUser_def mergeCommitConfig_def
        osWriteFile_def git_def exampleHost_def scriptedHost_def artifactsGit_def success_def
        exampleConfig_def exampleArtifactsRepo_def noCommitConfig_def noAuth_def
        setupCredentials_def TrimSpace_def isSpace_def Let_def jsonnetFile_def featureBranchOf_def)

section \<open>The version family and where a version is stored\<close>

text \<open>
  Claim C8. For every version string the key computed by \<^verbatim>\<open>UpdateArtifactsRepo\<close>
  (split at the dashes, drop the last part, join again) is the version string with its
  last dash-delimited segment removed, for example \<open>1.2.3\<close> for \<open>1.2.3-45\<close>. A call
  that gets to the document either finds the full version string under that key of
  \<open>document[repoName][pkgName]\<close> already, or goes on to write the document in which
  the full version string is stored under that key.
\<close>

theorem version_family_key:
  assumes "ArtifactsRepo cfg = Some ar"
    and "ensureCloned h cfg ar s = (Inr (), s1)"
    and "checkoutFeatureBranch h ar (pathJoin h (WorkingDir cfg) (Directory ar))
           (featureBranchOf repoName) s1 = (Inr (), s2)"
    and "readExistingContent h
           (pathJoin h (pathJoin h (WorkingDir cfg) (Directory ar)) (jsonnetFile repoName))
           (fst s2) = Inr (Some existingContent)"
  shows "versionPrefix version = stripLastSegment version
       \<and> UpdateArtifactsRepo h cfg repoName pkgName version s =
           (if storedVersion existingContent repoName pkgName (stripLastSegment version)
                 = Some (JStr version)
            then (Inr (), s2)
            else writeStageCommit h cfg ar (pathJoin h (WorkingDir cfg) (Directory ar))
                   (featureBranchOf repoName) repoName pkgName version
                   (publishOne existingContent (repoName, pkgName, version)) s2)
       \<and> storedVersion (publishOne existingContent (repoName, pkgName, version))
             repoName pkgName (stripLastSegment version) = Some (JStr version)"
  using UpdateArtifactsRepo_after_document [OF assms, of pkgName version]
    versionPrefix_eq_stripLastSegment [of version]
    storedVersion_publishOne [of existingContent repoName pkgName version repoName pkgName
      "versionPrefix version"]
  by simp

theorem version_family_key_witness:
  "stripLastSegment ''1.2.3-46'' = ''1.2.3''
   \<and> versionPrefix ''1.2.3-46'' = ''1.2.3''
   \<and> storedVersion (publishOne exampleDocument (''app'', ''pkg'', ''1.2.3-46''))
        ''app'' ''pkg'' ''1.2.3'' = Some (JStr ''1.2.3-46'')
   \<and> fst (UpdateArtifactsRepo exampleHost exampleConfig ''app'' ''pkg'' ''1.2.3-46''
        (exampleFiles, [])) = Inr ()"
proof -
  have s: "stripLastSegment ''1.2.3-46'' = ''1.2.3''"
    by (simp add: stripLastSegment_def)
  show ?thesis
    using version_family_key
      [OF example_configured example_ensureCloned example_checkout example_read,
       of "''1.2.3-46''" "''pkg''"]
      s example_stored example_writeStageCommit
    by (simp add: example_repoPath)
qed

text \<open>
  Claim C10. A version string without any dash has the empty string as its family key.
  A call that gets to the document is not turned away because of it: either
  \<open>document[repoName][pkgName][""]\<close> is the version already, or the call goes on to
  write the document that stores the version under the empty key. What the document
  holds under the version string itself as a key is left as it was.
\<close>

theorem dashless_version_empty_family:
  assumes "ArtifactsRepo cfg = Some ar"
    and "ensureCloned h cfg ar s = (Inr (), s1)"
    and "checkoutFeatureBranch h ar (pathJoin h (WorkingDir cfg) (Directory ar))
           (featureBranchOf repoName) s1 = (Inr (), s2)"
    and "readExistingContent h
           (pathJoin h (pathJoin h (WorkingDir cfg) (Directory ar)) (jsonnetFile repoName))
           (fst s2) = Inr (Some existingContent)"
    and "CHR ''-'' \<notin> set version"
  shows "versionPrefix version = []
       \<and> UpdateArtifactsRepo h cfg repoName pkgName version s =
           (if storedVersion existingContent repoName pkgName [] = Some (JStr version)
            then (Inr (), s2)
            else writeStageCommit h cfg ar (pathJoin h (WorkingDir cfg) (Directory ar))
                   (featureBranchOf repoName) repoName pkgName version
                   (publishOne existingContent (repoName, pkgName, version)) s2)
       \<and> storedVersion (publishOne existingContent (repoName, pkgName, version))
             repoName pkgName [] = Some (JStr version)
       \<and> (if version = [] then True
          else storedVersion (publishOne existingContent (repoName, pkgName, version))
                 repoName pkgName version
               = storedVersion existingContent repoName pkgName version)"
  using UpdateArtifactsRepo_after_document [OF assms(1-4), of pkgName version]
    versionPrefix_no_dash [OF assms(5)]
    storedVersion_publishOne [of existingContent repoName pkgName version repoName pkgName "[]"]
    storedVersion_publishOne [of existingContent repoName pkgName version repoName pkgName version]
  by simp

theorem dashless_version_empty_family_witness:
  "CHR ''-'' \<notin> set ''1.2.3''
   \<and> versionPrefix ''1.2.3'' = []
   \<and> storedVersion (publishOne exampleDocument (''app'', ''pkg'', ''1.2.3''))
        ''app'' ''pkg'' [] = Some (JStr ''1.2.3'')
   \<and> storedVersion (publishOne exampleDocument (''app'', ''pkg'', ''1.2.3''))
        ''app'' ''pkg'' ''1.2.3'' = Some (JStr ''1.2.3-45'')
   \<and> fst (UpdateArtifactsRepo exampleHost exampleConfig ''app'' ''pkg'' ''1.2.3''
        (exampleFiles, [])) = Inr ()"
proof -
  have d: "CHR ''-'' \<notin> set ''1.2.3''" by simp
  have e: "storedVersion exampleDocument ''app'' ''pkg'' [] = None"
    by (simp add: storedVersion_def pkgContentOf_def repoContentOf_def exampleDocument_def)
  show ?thesis
    using dashless_version_empty_family
      [OF example_configured example_ensureCloned example_checkout example_read d,
       of "''pkg''"]
      d e example_stored example_writeStageCommit
    by (simp add: example_repoPath)
qed

section \<open>One version per family\<close>

lemma lastVersion_Nil: "lastVersion [] r p f = None"
  by (simp add: lastVersion_def)

lemma lastVersion_snoc:
  "lastVersion (calls @ [(r, p, v)]) r' p' f' =
     (if r' = r \<and> p' = p \<and> f' = versionPrefix v then Some v else lastVersion calls r' p' f')"
  by (auto simp: lastVersion_def)

lemma storedVersion_publishAll:
  "storedVersion (publishAll doc calls) r p f =
     (case lastVersion calls r p f of
        None \<Rightarrow> storedVersion doc r p f
      | Some v \<Rightarrow> Some (JStr v))"
proof (induction calls rule: rev_induct)
  case Nil
  show ?case by (simp add: publishAll_def lastVersion_Nil)
next
  case (snoc call calls)
  obtain r' p' v' where c: "call = (r', p', v')" by (cases call) auto
  have "storedVersion (publishAll doc (calls @ [call])) r p f =
      (if r = r' \<and> p = p' \<and> f = versionPrefix v' then Some (JStr v')
       else storedVersion (publishAll doc calls) r p f)"
    by (simp add: publishAll_def c storedVersion_publishOne)
  then show ?case
    using snoc.IH by (simp add: c lastVersion_snoc)
qed

text \<open>
  Claim C2. After any run of publications the package object of the document has at
  most one member for a family key. If the run had a publication for the triple
  (repository, package, family), that one member holds the version published last
  for it, whatever was stored or published for the family before: a publication
  within a family replaces the stored version and adds no second member. Otherwise
  the members are those of the document the run started from. So \<open>1.2.0-9\<close> followed
  by \<open>1.2.0-10\<close> leaves a single member for \<open>1.2.0\<close>, holding \<open>1.2.0-10\<close>.
\<close>

theorem one_version_per_family:
  "length (familyMembers (publishAll doc calls) r p f) \<le> 1
   \<and> familyMembers (publishAll doc calls) r p f =
       (case lastVersion calls r p f of
          None \<Rightarrow> familyMembers doc r p f
        | Some v \<Rightarrow> [(f, JStr v)])"
proof -
  have "familyMembers (publishAll doc calls) r p f =
       (case lastVersion calls r p f of
          None \<Rightarrow> familyMembers doc r p f
        | Some v \<Rightarrow> [(f, JStr v)])"
    by (simp add: familyMembers_eq storedVersion_publishAll split: option.splits)
  then show ?thesis
    using length_familyMembers [of "publishAll doc calls" r p f] by simp
qed

theorem one_version_per_family_example:
  "familyMembers
     (publishAll fmempty [(''app'', ''pkg'', ''1.2.0-9''), (''app'', ''pkg'', ''1.2.0-10'')])
     ''app'' ''pkg'' ''1.2.0'' = [(''1.2.0'', JStr ''1.2.0-10'')]"
proof -
  have v: "versionPrefix ''1.2.0-10'' = ''1.2.0''" "versionPrefix ''1.2.0-9'' = ''1.2.0''"
    by (simp_all add: versionPrefix_def)
  have l: "lastVersion [(''app'', ''pkg'', ''1.2.0-9''), (''app'', ''pkg'', ''1.2.0-10'')]
      ''app'' ''pkg'' ''1.2.0'' = Some ''1.2.0-10''"
    by (simp add: lastVersion_def v)
  show ?thesis
    using one_version_per_family
      [of fmempty "[(''app'', ''pkg'', ''1.2.0-9''), (''app'', ''pkg'', ''1.2.0-10'')]"
        "''app''" "''pkg''" "''1.2.0''"]
    by (simp add: l)
qed

section \<open>Inbound triggers\<close>

lemma splitOn_hd: "hd (splitOn sep s) = takeWhile (\<lambda>c. c \<noteq> sep) s"
  by (induction s) (auto split: list.splits simp: splitOn_not_Nil)

lemma splitOn_refs_heads:
  "splitOn CHR ''/'' (''refs/heads/'' @ name) = ''refs'' # ''heads'' # splitOn CHR ''/'' name"
  using splitOn_append_sep [of "CHR ''/''" "''refs/heads''" name]
  by simp

lemma resolveBranch_refs_heads:
  "WebhookTriggerRequest.Branch
     (resolveBranch \<lparr> WebhookTriggerRequest.Event = e, WebhookTriggerRequest.Branch = [],
                      Reference = ''refs/heads/'' @ name \<rparr>)
   = takeWhile (\<lambda>c. c \<noteq> CHR ''/'') name"
proof -
  obtain q qs where q: "splitOn CHR ''/'' name = q # qs"
    using splitOn_not_Nil [of "CHR ''/''" name] by (cases "splitOn CHR ''/'' name") auto
  then have "q = takeWhile (\<lambda>c. c \<noteq> CHR ''/'') name"
    using splitOn_hd [of "CHR ''/''" name] by simp
  then show ?thesis
    using splitOn_refs_heads [of name] q
    by (simp add: resolveBranch_def Let_def)
qed

lemma matching_signature_parsed:
  assumes "Secret wcfg \<noteq> []"
    and "body r = Some b"
    and "signatureHeader r \<noteq> []"
    and "signatureHeader r = hexEncode (hmacSHA256 h (Secret wcfg) b)"
  shows "ValidateWebhook h wcfg r =
           (case jsonUnmarshalTrigger h b of
              None \<Rightarrow> Inl (Errorf ''failed to unmarshal payload'')
            | Some payload \<Rightarrow> Inr (resolveBranch payload))"
  using assms by (simp add: ValidateWebhook_def generateSignature_def)

lemma length_hexEncode: "length (hexEncode bytes) = 2 * length bytes"
  by (induction bytes) (simp_all add: hexEncode_def)

text \<open>
  Claim C7. With a secret configured, the signature expected for a trigger request is
  the hexadecimal HMAC-SHA256 of the raw body under the secret, and a request whose
  signature header differs from it is rejected with an error, whatever the JSON
  decoders would have made of the body: the result is the same for every decoder.
\<close>

theorem signature_checked_before_parsing:
  assumes "Secret wcfg \<noteq> []"
    and "body r = Some b"
    and "signatureHeader r \<noteq> hexEncode (hmacSHA256 h (Secret wcfg) b)"
  shows "generateSignature h b (Secret wcfg) = hexEncode (hmacSHA256 h (Secret wcfg) b)
       \<and> ValidateWebhook h wcfg r =
           Inl (Errorf (if signatureHeader r = [] then ''missing webhook signature''
                        else ''invalid webhook signature''))
       \<and> ValidateWebhook (h \<lparr> jsonUnmarshalTrigger := u, jsonDecodeTrigger := d \<rparr>) wcfg r
           = ValidateWebhook h wcfg r"
  using assms by (simp add: ValidateWebhook_def generateSignature_def)

theorem signature_checked_before_parsing_witness:
  "ValidateWebhook triggerHost \<lparr> CallbackURL = [], Secret = ''s3cr3t'', Method = [] \<rparr>
     \<lparr> signatureHeader = ''deadbeef'', body = Some pushBody \<rparr>
   = Inl (Errorf ''invalid webhook signature'')"
proof -
  have m: "signatureHeader \<lparr> signatureHeader = ''deadbeef'', body = Some pushBody \<rparr>
      \<noteq> hexEncode (hmacSHA256 triggerHost
           (Secret \<lparr> CallbackURL = [], Secret = ''s3cr3t'', Method = [] \<rparr>) pushBody)"
  proof -
    have "length (hexEncode (hmacSHA256 triggerHost ''s3cr3t'' pushBody)) = 64"
      by (simp add: length_hexEncode triggerHost_def scriptedHost_def)
    then have "hexEncode (hmacSHA256 triggerHost ''s3cr3t'' pushBody) \<noteq> ''deadbeef''"
      by auto
    then show ?thesis by simp
  qed
  show ?thesis
    using signature_checked_before_parsing [OF _ _ m, of "jsonUnmarshalTrigger triggerHost"
        "jsonDecodeTrigger triggerHost"]
    by simp
qed

text \<open>
  Claim C9, evaluated on the code. The claim: with an empty branch field and a reference
  \<^verbatim>\<open>refs/heads/<name>\<close>, the branch becomes the whole \<^verbatim>\<open><name>\<close>, slashes included. The
  code takes the third slash-separated part of the reference only (lemma
  \<open>resolveBranch_refs_heads\<close>: the name up to its first slash), so the reference
  \<^verbatim>\<open>refs/heads/feature/login\<close> resolves to the branch \<open>feature\<close>.
\<close>

theorem branch_with_slash_truncated:
  "ValidateWebhook triggerHost \<lparr> CallbackURL = [], Secret = [], Method = [] \<rparr>
     \<lparr> signatureHeader = [], body = Some pushBody \<rparr>
   = Inr \<lparr> WebhookTriggerRequest.Event = ''push'', WebhookTriggerRequest.Branch = ''feature'',
           Reference = ''refs/heads/feature/login'' \<rparr>"
  by (simp add: ValidateWebhook_def triggerHost_def scriptedHost_def resolveBranch_def Let_def)

section \<open>A scheduled tick\<close>

lemma TrimSpace_1: "TrimSpace (''1'' @ newline) = ''1''"
  by (simp add: TrimSpace_def isSpace_def newline_def)
lemma TrimSpace_0: "TrimSpace (''0'' @ newline) = ''0''"
  by (simp add: TrimSpace_def isSpace_def newline_def)
lemma TrimSpace_hash: "TrimSpace (''5d41402abc4b'' @ newline) = ''5d41402abc4b''"
  by (simp add: TrimSpace_def isSpace_def newline_def)

lemma check_main:
  "CheckAndUpdateRepoBranch syncHost exampleConfig ''main'' (w, tr) =
     (Inr (), (w, tr @ [Git ''repos/main-repo'' [''fetch'', ''origin'', ''main''] NoCredentials,
                        Git ''repos/main-repo'' [''rev-list'', ''HEAD..origin/main'', ''--count''] NoCredentials]))"
  by (simp add: CheckAndUpdateRepoBranch_def checkAndUpdateRepo_def hasNewCommits_def
        syncHost_def scriptedHost_def syncGit_def git_def exampleConfig_def Let_def success_def
        setupCredentials_def noAuth_def TrimSpace_0 del: append.simps)

lemma check_develop:
  "CheckAndUpdateRepoBranch syncHost exampleConfig ''develop'' (w, tr) =
     (Inr (), (w, tr @ [Git ''repos/main-repo'' [''fetch'', ''origin'', ''develop''] NoCredentials,
                        Git ''repos/main-repo'' [''rev-list'', ''HEAD..origin/develop'', ''--count''] NoCredentials,
                        Git ''repos/main-repo'' [''checkout'', ''develop''] NoCredentials,
                        Git ''repos/main-repo'' [''pull'', ''origin'', ''develop''] NoCredentials]))"
  by (simp add: CheckAndUpdateRepoBranch_def checkAndUpdateRepo_def hasNewCommits_def pullRepo_def
        syncHost_def scriptedHost_def syncGit_def git_def exampleConfig_def Let_def success_def
        setupCredentials_def noAuth_def TrimSpace_1 del: append.simps)

lemma example_checkBranches:
  "checkBranches syncHost exampleConfig [''main'', ''develop''] ([], []) =
     ([''main'', ''develop''], ([], checkedTrace))"
  by (simp add: check_main check_develop checkedTrace_def)

lemma example_hash:
  "GetLastCommitHash syncHost exampleConfig
     \<lparr> URL = u, Repository.Branch = b, Directory = ''main-repo'', Auth = a,
       Repository.CommitConfig = c \<rparr> (w, tr) =
     (Inr ''5d41402abc4b'', (w, tr @ [Git ''repos/main-repo'' [''rev-parse'', ''HEAD''] NoCredentials]))"
  by (simp add: GetLastCommitHash_def syncHost_def scriptedHost_def syncGit_def git_def
        exampleConfig_def Let_def success_def TrimSpace_hash del: append.simps)

lemma example_addRepoUpdates:
  "addRepoUpdates syncHost exampleConfig [''main'', ''develop''] fmempty ([], checkedTrace) =
     (fmupd ''develop'' (exampleUpdate ''develop'') (fmupd ''main'' (exampleUpdate ''main'') fmempty),
      ([], hashedTrace))"
proof -
  have m: "MainRepo exampleConfig =
      \<lparr> URL = ''https://git.example.org/main.git'', Repository.Branch = ''main'',
        Directory = ''main-repo'', Auth = noAuth, Repository.CommitConfig = noCommitConfig \<rparr>"
    by (simp add: exampleConfig_def)
  have n: "now syncHost w = ''2024-05-01T10:00:00Z''" for w
    by (simp add: syncHost_def scriptedHost_def)
  show ?thesis
    by (simp add: m n example_hash exampleUpdate_def Let_def hashedTrace_def)
qed

lemma example_send:
  "snd (snd (SendNotification syncHost exampleWebhook payload ([], trace))) =
     trace @ [HttpSend \<lparr> requestMethod = ''POST'', url = ''https://hooks.example.org/notify'',
                        contentType = ''application/json'', signature = None,
                        payloadBytes = ''{ }'' \<rparr>]"
  by (simp add: SendNotification_def exampleWebhook_def syncHost_def scriptedHost_def Let_def)

lemma checkBranches_all_without_error:
  assumes "\<And>b s. b \<in> set branches \<Longrightarrow> fst (CheckAndUpdateRepoBranch h cfg b s) = Inr ()"
  shows "fst (checkBranches h cfg branches s) = branches"
  using assms
proof (induction branches arbitrary: s)
  case Nil
  show ?case by simp
next
  case (Cons b bs)
  obtain s1 where c: "CheckAndUpdateRepoBranch h cfg b s = (Inr (), s1)"
    using Cons.prems [of b s] by (cases "CheckAndUpdateRepoBranch h cfg b s") auto
  have "fst (checkBranches h cfg bs s1) = bs"
    using Cons.IH [of s1] Cons.prems by simp
  then show ?case using c by (simp add: split_beta)
qed

text \<open>
  Claim C5, evaluated on the code. The claim: after a tick in which only \<open>develop\<close> has
  a new commit, \<open>repoUpdates\<close> has an entry for \<open>develop\<close> only. The tick does pull
  \<open>develop\<close> only, but \<open>runCheck\<close> collects every branch whose check returned no
  error, (lemma \<open>checkBranches_all_without_error\<close>), so the one payload it sends has an entry
  for the unchanged \<open>main\<close> as well.
\<close>

theorem unchanged_branch_reported:
  "map_option RepoUpdates (fst (runCheck syncHost exampleConfig exampleWebhook ([], [])))
     = Some (fmupd ''develop'' (exampleUpdate ''develop'')
              (fmupd ''main'' (exampleUpdate ''main'') fmempty))
   \<and> pulledBranches (snd (snd (runCheck syncHost exampleConfig exampleWebhook ([], []))))
     = [''develop'']
   \<and> length (sentRequests (snd (snd (runCheck syncHost exampleConfig exampleWebhook ([], [])))))
     = 1"
proof -
  have b: "Branches exampleConfig = [''main'', ''develop'']"
    by (simp add: exampleConfig_def)
  have r: "map_option RepoUpdates (fst (runCheck syncHost exampleConfig exampleWebhook ([], [])))
       = Some (fmupd ''develop'' (exampleUpdate ''develop'')
              (fmupd ''main'' (exampleUpdate ''main'') fmempty))"
    by (simp add: runCheck_def b example_checkBranches example_addRepoUpdates split_beta Let_def
          del: addRepoUpdates.simps checkBranches.simps)
  have t: "snd (snd (runCheck syncHost exampleConfig exampleWebhook ([], []))) =
       hashedTrace @ [HttpSend \<lparr> requestMethod = ''POST'',
                        url = ''https://hooks.example.org/notify'',
                        contentType = ''application/json'', signature = None,
                        payloadBytes = ''{ }'' \<rparr>]"
    by (simp add: runCheck_def b example_checkBranches example_addRepoUpdates split_beta Let_def
          example_send del: addRepoUpdates.simps checkBranches.simps)
  show ?thesis
    unfolding r t
    by (simp add: pulledBranches_def sentRequests_def hashedTrace_def checkedTrace_def)
qed

section \<open>The submodule pass\<close>

lemma scriptedHost_simps:
  "pathJoin (scriptedHost script decode) a b = a @ ''/'' @ b"
  "pathExists (scriptedHost script decode) path w = True"
  "readFile (scriptedHost script decode) path w = map_of w path"
  "writeFile (scriptedHost script decode) path data w = (True, (path, data) # w)"
  "exec (scriptedHost script decode) dir args cred w = (script dir args, w)"
  "now (scriptedHost script decode) w = ''2024-05-01T10:00:00Z''"
  by (simp_all add: scriptedHost_def)

lemma exampleConfig_simps:
  "WorkingDir exampleConfig = ''repos''"
  "UseSubmodules exampleConfig = False"
  "Branches exampleConfig = [''main'', ''develop'']"
  "AutoCommit exampleConfig = False"
  "GitConfig.CommitConfig exampleConfig = noCommitConfig"
  "URL (MainRepo exampleConfig) = ''https://git.example.org/main.git''"
  "Directory (MainRepo exampleConfig) = ''main-repo''"
  "Auth (MainRepo exampleConfig) = noAuth"
  "ArtifactsRepo exampleConfig = Some exampleArtifactsRepo"
  by (simp_all add: exampleConfig_def)

lemma findSubmodules_example: "findSubmodules gitmodulesText = [''libs/core'']"
  by (simp add: gitmodulesText_def quoted_def newline_def matchSubmoduleAt_def submoduleOpen_def
        HasPrefix_def)


lemma updateAttempts_append [simp]:
  "updateAttempts (xs @ ys) = updateAttempts xs @ updateAttempts ys"
  by (simp add: updateAttempts_def)

lemma updateEachSubmodule_attempts_all:
  "updateAttempts (snd (snd (updateEachSubmodule h cfg submodules anyUpdated s)))
     = updateAttempts (snd s) @ submodules"
proof (induction submodules arbitrary: anyUpdated s)
  case Nil
  show ?case by simp
next
  case (Cons submodule rest)
  obtain r s1 where g1: "git h (mainRepoPath h cfg)
             [''submodule'', ''update'', ''--recursive'', ''--remote'', submodule]
             (sshKeyPathEnv (MainRepo cfg)) s = (r, s1)"
    by (cases "git h (mainRepoPath h cfg)
             [''submodule'', ''update'', ''--recursive'', ''--remote'', submodule]
             (sshKeyPathEnv (MainRepo cfg)) s") auto
  have t1: "updateAttempts (snd s1) = updateAttempts (snd s) @ [submodule]"
    using git_trace [OF g1] by (simp add: updateAttempts_def)
  obtain r2 s2 where g2: "git h (pathJoin h (mainRepoPath h cfg) submodule) [''rev-parse'', ''HEAD'']
                NoCredentials s1 = (r2, s2)"
    by (cases "git h (pathJoin h (mainRepoPath h cfg) submodule) [''rev-parse'', ''HEAD'']
                NoCredentials s1") auto
  have t2: "updateAttempts (snd s2) = updateAttempts (snd s) @ [submodule]"
    using git_trace [OF g2] t1 by (simp add: updateAttempts_def)
  show ?case
    using g1 g2 t1 t2 Cons.IH [of anyUpdated s1] Cons.IH [of anyUpdated s2] Cons.IH [of True s2]
    by simp
qed

lemma updateEachSubmodule_keeps_True:
  "fst (updateEachSubmodule h cfg submodules True s) = True"
  by (induction submodules arbitrary: s) (auto split: prod.splits)

lemma anyUpdated_when_commands_succeed:
  assumes "\<And>dir args cred w. ok (fst (exec h dir args cred w))"
    and "submodules \<noteq> []"
  shows "fst (updateEachSubmodule h cfg submodules anyUpdated s) = True"
proof (cases submodules)
  case Nil
  with assms(2) show ?thesis by simp
next
  case (Cons submodule rest)
  have g: "ok (fst (git h dir args cred t))" for dir args cred t
    using assms(1) [of dir args cred "fst t"] by (simp add: git_def split_beta)
  show ?thesis
    unfolding Cons
    by (simp add: split_beta g updateEachSubmodule_keeps_True)
qed

lemma failed_submodule_is_skipped:
  "updateEachSubmodule (scriptedHost partialGit (\<lambda>data. UnmarshalError)) exampleConfig
     [''libs/core'', ''libs/broken'', ''libs/ui''] False (w, []) =
     (True,
      (w, [Git ''repos/main-repo''
             [''submodule'', ''update'', ''--recursive'', ''--remote'', ''libs/core''] NoCredentials,
           Git ''repos/main-repo/libs/core'' [''rev-parse'', ''HEAD''] NoCredentials,
           Git ''repos/main-repo''
             [''submodule'', ''update'', ''--recursive'', ''--remote'', ''libs/broken''] NoCredentials,
           Git ''repos/main-repo''
             [''submodule'', ''update'', ''--recursive'', ''--remote'', ''libs/ui''] NoCredentials,
           Git ''repos/main-repo/libs/ui'' [''rev-parse'', ''HEAD''] NoCredentials]))"
  by (simp add: mainRepoPath_def scriptedHost_simps exampleConfig_simps git_def partialGit_def
        success_def failure_def sshKeyPathEnv_def noAuth_def)

text \<open>
  Claim C6, evaluated on the code. The claim: a submodule whose update fails is skipped
  and the others are still attempted (so it is: lemma
  \<open>updateEachSubmodule_attempts_all\<close>), and \<open>anyUpdated\<close> is true only when a submodule
  succeeded and advanced to a new commit. The code sets \<open>anyUpdated\<close> as soon as the
  update command and the following \<^verbatim>\<open>rev-parse\<close> of one submodule succeed (lemma
  \<open>anyUpdated_when_commands_succeed\<close>), and never compares heads: in a pass over one submodule that is already at the remote head,
  where nothing changes, the result is \<open>true\<close>.
\<close>

theorem unchanged_submodule_counts_as_updated:
  "checkAndUpdateSubmodules submoduleHost exampleConfig (gitmodulesFiles, []) =
     (Inr True,
      (gitmodulesFiles,
       [Git ''repos/main-repo'' [''submodule'', ''status''] NoCredentials,
        Git ''repos/main-repo'' [''submodule'', ''update'', ''--recursive'', ''--remote'', ''libs/core'']
          NoCredentials,
        Git ''repos/main-repo/libs/core'' [''rev-parse'', ''HEAD''] NoCredentials,
        Git ''repos/main-repo'' [''status''] NoCredentials]))
   \<and> stdout (fst (exec submoduleHost ''repos/main-repo/libs/core'' [''rev-parse'', ''HEAD'']
        NoCredentials gitmodulesFiles)) = ''9f2c1e7a'' @ newline"
proof -
  have l: "listSubmodules submoduleHost exampleConfig gitmodulesFiles = Inr [''libs/core'']"
    by (simp add: listSubmodules_def mainRepoPath_def submoduleHost_def scriptedHost_def
          exampleConfig_def gitmodulesFiles_def findSubmodules_example)
  show ?thesis
    unfolding checkAndUpdateSubmodules_def
    by (simp add: l Let_def mainRepoPath_def [of submoduleHost] scriptedHost_simps
          scriptedHost_simps [of submoduleGit "\<lambda>data. UnmarshalError", folded submoduleHost_def]
          exampleConfig_simps git_def submoduleGit_def success_def
          sshKeyPathEnv_def noAuth_def)
qed

section \<open>How the target file is rewritten\<close>

lemma fileWrites_append [simp]: "fileWrites (xs @ ys) = fileWrites xs @ fileWrites ys"
  by (simp add: fileWrites_def)

lemma fileWrites_Git [simp]: "fileWrites [Git dir args cred] = []"
  by (simp add: fileWrites_def)

lemma fileWrites_WriteFile [simp]: "fileWrites [WriteFile path data] = [(path, data)]"
  by (simp add: fileWrites_def)

lemma gitOnly_git: "gitOnly (git h dir args cred)"
  by (simp add: gitOnly_def snd_git)

lemma gitOnly_git_dep: "gitOnly (\<lambda>s. git h (dir s) (args s) (cred s) s)"
  by (simp add: gitOnly_def snd_git)

lemma gitOnly_return: "gitOnly (\<lambda>s. (x, s))"
  by (simp add: gitOnly_def)

lemma gitOnly_bind:
  assumes "gitOnly m" and "\<And>r. gitOnly (k r)"
  shows "gitOnly (\<lambda>s. case m s of (r, s1) \<Rightarrow> k r s1)"
  using assms by (auto simp: gitOnly_def split: prod.splits) (metis snd_conv)

lemma gitOnly_if:
  assumes "gitOnly a" and "gitOnly b"
  shows "gitOnly (\<lambda>s. if c s then a s else b s)"
  using assms by (simp add: gitOnly_def)

lemma gitOnly_sum:
  assumes "\<And>e. gitOnly (a e)" and "\<And>x. gitOnly (b x)"
  shows "gitOnly (\<lambda>s. case res of Inl e \<Rightarrow> a e s | Inr x \<Rightarrow> b x s)"
  using assms by (cases res) (simp_all add: gitOnly_def)

lemma gitOnly_let:
  assumes "gitOnly (b v)"
  shows "gitOnly (\<lambda>s. let x = v in b x s)"
  using assms by simp

lemmas gitOnly_rules =
  gitOnly_git gitOnly_git_dep gitOnly_return gitOnly_bind gitOnly_if gitOnly_sum gitOnly_let

lemma gitOnly_setGitUser: "gitOnly (setGitUser h repoPath cc)"
  unfolding setGitUser_def [abs_def]
  by (intro gitOnly_rules)

lemma gitOnly_commitPushMerge:
  "gitOnly (commitPushMerge h cfg ar repoPath fb repoName pkgName version)"
  unfolding commitPushMerge_def [abs_def] Let_def
  by (intro gitOnly_rules gitOnly_setGitUser)


lemma gitOnlyD: "gitOnly m \<Longrightarrow> fileWrites (snd (snd (m s))) = fileWrites (snd s)"
  unfolding gitOnly_def by blast

lemma gitOnly_updateSubmodules: "gitOnly (updateSubmodules h cfg)"
  unfolding updateSubmodules_def [abs_def] Let_def
  by (intro gitOnly_rules)

lemma gitOnly_cloneRepo: "gitOnly (cloneRepo h cfg repo)"
  unfolding cloneRepo_def [abs_def] Let_def
  by (intro gitOnly_rules gitOnly_updateSubmodules)

lemma gitOnly_ensureCloned: "gitOnly (ensureCloned h cfg ar)"
  unfolding ensureCloned_def [abs_def]
  by (intro gitOnly_rules gitOnly_cloneRepo)

lemma gitOnly_checkoutFeatureBranch: "gitOnly (checkoutFeatureBranch h ar repoPath fb)"
  unfolding checkoutFeatureBranch_def [abs_def]
  by (intro gitOnly_rules)

lemma writeStageCommit_fileWrites:
  "fileWrites (snd (snd (writeStageCommit h cfg ar repoPath fb repoName pkgName version content s)))
     = fileWrites (snd s) @ [(pathJoin h repoPath (jsonnetFile repoName), jsonMarshalIndent h content)]"
proof -
  obtain written s1 where w: "osWriteFile h (pathJoin h repoPath (jsonnetFile repoName))
             (jsonMarshalIndent h content) s = (written, s1)"
    by (cases "osWriteFile h (pathJoin h repoPath (jsonnetFile repoName))
             (jsonMarshalIndent h content) s") auto
  then have t1: "fileWrites (snd s1) = fileWrites (snd s)
       @ [(pathJoin h repoPath (jsonnetFile repoName), jsonMarshalIndent h content)]"
    by (auto simp: osWriteFile_def split: prod.splits)
  have rest: "gitOnly (\<lambda>s1.
        (case git h repoPath [''add'', jsonnetFile repoName] NoCredentials s1 of (r2, s2) \<Rightarrow>
         if \<not> ok r2 then (Inl (Failed ''git add failed'' (combined r2)), s2)
         else
           (case git h repoPath [''status'', ''--porcelain''] NoCredentials s2 of (r3, s3) \<Rightarrow>
            if \<not> ok r3 then (Inl (Failed ''failed to check git status'' []), s3)
            else if length (TrimSpace (stdout r3)) > 0
            then commitPushMerge h cfg ar repoPath fb repoName pkgName version s3
            else (Inr (), s3))))"
    by (intro gitOnly_rules gitOnly_commitPushMerge)
  show ?thesis
    using w t1 gitOnlyD [OF rest, of s1]
    by (simp add: writeStageCommit_def)
qed

lemma fileWrites_Nil [simp]: "fileWrites [] = []"
  by (simp add: fileWrites_def)

lemma exampleHost_simps:
  "pathJoin exampleHost a b = a @ ''/'' @ b"
  "jsonMarshalIndent exampleHost content = ''{ }''"
  by (simp_all add: exampleHost_def scriptedHost_def)

text \<open>
  Claim C3, as the code has it. The claim says the file is replaced through a write to
  a separate location and a rename. The code calls \<^verbatim>\<open>os.WriteFile\<close> on the target path
  itself, which truncates the file and writes it in place, and that is the only file
  operation of a publication: a call that gets to the document and finds another
  version (or none) performs exactly one file write, of the marshalled new document, to
  \<^verbatim>\<open><repoName>.jsonnet\<close> in the working copy.
\<close>

theorem rewrite_in_place:
  assumes "ArtifactsRepo cfg = Some ar"
    and "ensureCloned h cfg ar s = (Inr (), s1)"
    and "checkoutFeatureBranch h ar (pathJoin h (WorkingDir cfg) (Directory ar))
           (featureBranchOf repoName) s1 = (Inr (), s2)"
    and "readExistingContent h
           (pathJoin h (pathJoin h (WorkingDir cfg) (Directory ar)) (jsonnetFile repoName))
           (fst s2) = Inr (Some existingContent)"
    and "storedVersion existingContent repoName pkgName (versionPrefix version)
           \<noteq> Some (JStr version)"
  shows "fileWrites (snd (snd (UpdateArtifactsRepo h cfg repoName pkgName version s))) =
           fileWrites (snd s)
             @ [(pathJoin h (pathJoin h (WorkingDir cfg) (Directory ar)) (jsonnetFile repoName),
                 jsonMarshalIndent h (publishOne existingContent (repoName, pkgName, version)))]"
proof -
  have "fileWrites (snd s1) = fileWrites (snd s)"
    using gitOnlyD [OF gitOnly_ensureCloned, of h cfg ar s] assms(2) by simp
  moreover have "fileWrites (snd s2) = fileWrites (snd s1)"
    using gitOnlyD [OF gitOnly_checkoutFeatureBranch
        [of h ar "pathJoin h (WorkingDir cfg) (Directory ar)" "featureBranchOf repoName"], of s1]
      assms(3) by simp
  ultimately show ?thesis
    using UpdateArtifactsRepo_after_document [OF assms(1-4), of pkgName version] assms(5)
    by (simp add: writeStageCommit_fileWrites)
qed

theorem rewrite_in_place_witness:
  "storedVersion exampleDocument ''app'' ''pkg'' (versionPrefix ''2.0.0-1'') \<noteq> Some (JStr ''2.0.0-1'')
   \<and> fileWrites (snd (snd (UpdateArtifactsRepo exampleHost exampleConfig ''app'' ''pkg'' ''2.0.0-1''
       (exampleFiles, [])))) = [(''repos/artifacts/app.jsonnet'', ''{ }'')]"
proof -
  have n: "storedVersion exampleDocument ''app'' ''pkg'' (versionPrefix ''2.0.0-1'')
      \<noteq> Some (JStr ''2.0.0-1'')"
    by (simp add: versionPrefix_def storedVersion_def pkgContentOf_def repoContentOf_def
          exampleDocument_def)
  show ?thesis
    using rewrite_in_place
      [OF example_configured example_ensureCloned example_checkout example_read n] n
    by (simp add: exampleHost_simps jsonnetFile_def exampleConfig_simps
          exampleArtifactsRepo_def)
qed

text \<open>
  The run that publishes \<open>1.2.3-46\<close> for \<open>app\<close> writes \<^verbatim>\<open>repos/artifacts/app.jsonnet\<close>
  itself and nothing else: no file beside the target is written from which a rename
  could replace it.
\<close>

theorem document_written_in_place:
  "fileWrites (snd (snd (UpdateArtifactsRepo exampleHost exampleConfig ''app'' ''pkg'' ''1.2.3-46''
       (exampleFiles, [])))) = [(''repos/artifacts/app.jsonnet'', ''{ }'')]"
  by (simp add: UpdateArtifactsRepo_def ensureCloned_def checkoutFeatureBranch_def
        readExistingContent_def updateContent_def pkgContentOf_def repoContentOf_def
        writeStageCommit_def commitPushMerge_def setGitUser_def mergeCommitConfig_def
        osWriteFile_def git_def exampleHost_def scriptedHost_def artifactsGit_def success_def
        exampleConfig_def exampleArtifactsRepo_def exampleDocument_def exampleFiles_def
        noCommitConfig_def noAuth_def setupCredentials_def TrimSpace_def isSpace_def Let_def
        jsonnetFile_def featureBranchOf_def versionPrefix_def fileWrites_def)

end
